theory Spec2Isabelle
  imports Complex_Main
begin

section \<open>JavaScript values used by the server\<close>

text \<open>
  The server of \<^verbatim>\<open>src/server/src/index.ts\<close> is embedded function by function.
  A JavaScript string is a \<^typ>\<open>string\<close> (code points below 256); a value of type
  \<^verbatim>\<open>string | null | undefined\<close> is a \<^typ>\<open>string option\<close>.  A value is truthy
  when it is a non-empty string.
\<close>

fun truthy :: "string option \<Rightarrow> bool" where
  "truthy None = False"
| "truthy (Some s) = (s \<noteq> [])"

text \<open>The operator \<^verbatim>\<open>a || b\<close> on such values.\<close>

definition or_else :: "string option \<Rightarrow> string option \<Rightarrow> string option" where
  "or_else a b = (if truthy a then a else b)"

text \<open>White space as \<^verbatim>\<open>String.prototype.trim\<close> and the pattern \<^verbatim>\<open>\s\<close> read it,
  for code points below 256: tab, line feed, vertical tab, form feed, carriage return,
  space and the no-break space.\<close>

definition is_space :: "char \<Rightarrow> bool" where
  "is_space c = (c \<in> set [CHR 0x09, CHR 0x0A, CHR 0x0B, CHR 0x0C, CHR 0x0D, CHR 0x20, CHR 0xA0])"

definition trim :: "string \<Rightarrow> string" where
  "trim s = rev (dropWhile is_space (rev (dropWhile is_space s)))"

text \<open>\<^verbatim>\<open>Number(number)\<close> is the built-in conversion of the path segment to a double;
  its result is an input of the handlers.  \<^verbatim>\<open>Number.isNaN\<close> and
  \<^verbatim>\<open>Number.isInteger\<close> read it.\<close>

datatype jsnum = NaN | PosInfinity | NegInfinity | Finite rat

definition isNaN :: "jsnum \<Rightarrow> bool" where
  "isNaN n = (n = NaN)"

fun isInteger :: "jsnum option \<Rightarrow> bool" where
  "isInteger (Some (Finite q)) = (q = of_int \<lfloor>q\<rfloor>)"
| "isInteger _ = False"

section \<open>Configuration\<close>

text \<open>\<^verbatim>\<open>"a,b".split(",")\<close>.\<close>

fun split_on :: "char \<Rightarrow> string \<Rightarrow> string list" where
  "split_on c [] = [[]]"
| "split_on c (x # xs) =
     (if x = c then [] # split_on c xs
      else (case split_on c xs of [] \<Rightarrow> [[x]] | y # ys \<Rightarrow> (x # y) # ys))"

fun normalizePhone :: "string option \<Rightarrow> string option" where
  "normalizePhone None = None"
| "normalizePhone (Some raw) =
     (if raw = [] then None
      else (let cleaned = filter (\<lambda>c. \<not> is_space c) raw in
            if \<not> (cleaned \<noteq> [] \<and> hd cleaned = CHR ''+'')
            then Some (CHR ''+'' # (if cleaned \<noteq> [] \<and> hd cleaned = CHR ''+'' then tl cleaned else cleaned))
            else Some cleaned))"

record config =
  DEFAULT_ADMIN_NAME :: string
  ADMIN_PHONE_LIST :: "string list"

text \<open>The two constants as the module computes them when it is loaded, from the value
  of \<^verbatim>\<open>process.env.DEFAULT_ADMIN_NAME || default\<close> and of
  \<^verbatim>\<open>process.env.ADMIN_PHONES || default\<close>.\<close>

definition load_config :: "string \<Rightarrow> string \<Rightarrow> config" where
  "load_config admin_name admin_phones =
     \<lparr> DEFAULT_ADMIN_NAME = trim admin_name,
       ADMIN_PHONE_LIST =
         concat (map (\<lambda>v. case normalizePhone (Some v) of
                             None \<Rightarrow> [] | Some p \<Rightarrow> (if p = [] then [] else [p]))
                     (split_on CHR '','' admin_phones)) \<rparr>"

definition computeAdminFlag :: "config \<Rightarrow> string option \<Rightarrow> string option \<Rightarrow> bool \<Rightarrow> bool" where
  "computeAdminFlag cfg name phone current =
     (let matchName = (DEFAULT_ADMIN_NAME cfg \<noteq> [] \<and> truthy name \<and> name = Some (DEFAULT_ADMIN_NAME cfg));
          matchPhone = (truthy phone \<and> (case phone of None \<Rightarrow> False | Some p \<Rightarrow> p \<in> set (ADMIN_PHONE_LIST cfg)))
      in current \<or> matchName \<or> matchPhone)"

section \<open>The store\<close>

text \<open>
  The three tables, as lists of rows.  The schema is not part of the sources; no
  constraint is built into the tables, and a statement that the real store would
  reject (a uniqueness violation, a lock timeout, a lost connection) is a statement the
  fault schedule below makes raise.
\<close>

record DbUserRow =
  id_user :: string
  firebase_uid :: string
  name :: "string option"
  phone :: "string option"
  is_admin :: bool

record week =
  id_week :: string
  week_key :: string

record part =
  week_id :: string
  number :: int
  claimed_by :: "string option"
  claimed_name :: "string option"
  claimed_at :: "nat option"

record store =
  users :: "DbUserRow list"
  weeks :: "week list"
  parts :: "part list"

text \<open>The row type \<^verbatim>\<open>PartRow\<close> of the responses and events.\<close>

record PartRow =
  row_number :: jsnum
  row_claimed_by :: "string option"
  row_claimed_name :: "string option"
  row_claimed_is_admin :: "bool option"

text \<open>An identifier the store generates: any non-empty identifier not yet in use.\<close>

definition fresh_id :: "char \<Rightarrow> string list \<Rightarrow> string" where
  "fresh_id c used = replicate (Suc (fold (\<lambda>u n. max (length u) n) used 0)) c"

text \<open>
  The declaration of the table of the parts is not among the source files.  The numbers of
  the parts are the values of \<^verbatim>\<open>generate_series(1,30)\<close>, which are 32-bit integers, and
  the column \<^verbatim>\<open>number\<close> is taken to be a column of that type.  A statement that compares
  the column with a bound number (\<^verbatim>\<open>number=$2\<close>) reads the number as such an integer, and
  raises when the number is none: a fraction, an infinity, or an integer out of range.
  \<open>int4\<close> is this reading, and \<open>None\<close> is the statement raising.
\<close>

fun int4 :: "jsnum \<Rightarrow> int option" where
  "int4 (Finite q) =
     (if q = of_int \<lfloor>q\<rfloor> \<and> - 2147483648 \<le> \<lfloor>q\<rfloor> \<and> \<lfloor>q\<rfloor> \<le> 2147483647 then Some \<lfloor>q\<rfloor> else None)"
| "int4 _ = None"

subsection \<open>The statements\<close>

definition select_users_by_phone :: "string \<Rightarrow> store \<Rightarrow> DbUserRow list" where
  "select_users_by_phone ph d = filter (\<lambda>u. phone u = Some ph) (users d)"

definition select_users_by_id :: "string \<Rightarrow> store \<Rightarrow> DbUserRow list" where
  "select_users_by_id i d = filter (\<lambda>u. id_user u = i) (users d)"

definition update_user ::
  "string \<Rightarrow> string option \<Rightarrow> string option \<Rightarrow> bool \<Rightarrow> store \<Rightarrow> DbUserRow list \<times> store" where
  "update_user i nm ph adm d =
     (map (\<lambda>u. u\<lparr>name := nm, phone := ph, is_admin := adm\<rparr>) (filter (\<lambda>u. id_user u = i) (users d)),
      d\<lparr>users := map (\<lambda>u. if id_user u = i then u\<lparr>name := nm, phone := ph, is_admin := adm\<rparr> else u) (users d)\<rparr>)"

definition new_user :: "string \<Rightarrow> string option \<Rightarrow> string option \<Rightarrow> bool \<Rightarrow> store \<Rightarrow> DbUserRow" where
  "new_user authKey nm ph adm d =
     \<lparr> id_user = fresh_id CHR ''u'' (map id_user (users d)), firebase_uid = authKey,
       name = nm, phone = ph, is_admin = adm \<rparr>"

definition insert_user ::
  "string \<Rightarrow> string option \<Rightarrow> string option \<Rightarrow> bool \<Rightarrow> store \<Rightarrow> DbUserRow list \<times> store" where
  "insert_user authKey nm ph adm d =
     ([new_user authKey nm ph adm d], d\<lparr>users := users d @ [new_user authKey nm ph adm d]\<rparr>)"

definition update_user_admin :: "string \<Rightarrow> bool \<Rightarrow> store \<Rightarrow> DbUserRow list \<times> store" where
  "update_user_admin i adm d =
     (map (\<lambda>u. u\<lparr>is_admin := adm\<rparr>) (filter (\<lambda>u. id_user u = i) (users d)),
      d\<lparr>users := map (\<lambda>u. if id_user u = i then u\<lparr>is_admin := adm\<rparr> else u) (users d)\<rparr>)"

definition select_weeks :: "string \<Rightarrow> store \<Rightarrow> week list" where
  "select_weeks k d = filter (\<lambda>w. week_key w = k) (weeks d)"

definition new_week :: "string \<Rightarrow> store \<Rightarrow> week" where
  "new_week k d =
     \<lparr> id_week = fresh_id CHR ''w'' (map id_week (weeks d) @ map week_id (parts d)), week_key = k \<rparr>"

definition insert_week :: "string \<Rightarrow> store \<Rightarrow> week list \<times> store" where
  "insert_week k d = ([new_week k d], d\<lparr>weeks := weeks d @ [new_week k d]\<rparr>)"

definition free_part :: "string \<Rightarrow> int \<Rightarrow> part" where
  "free_part w n = \<lparr> week_id = w, number = n, claimed_by = None, claimed_name = None, claimed_at = None \<rparr>"

text \<open>\<^verbatim>\<open>insert into parts (week_id, number) select $1, n from generate_series(1,30) as n\<close>\<close>

definition insert_parts :: "string \<Rightarrow> store \<Rightarrow> unit \<times> store" where
  "insert_parts w d = ((), d\<lparr>parts := parts d @ map (free_part w) [1..30]\<rparr>)"

text \<open>The three statements that bind the part number: \<open>None\<close> is the statement raising.\<close>

definition select_part :: "string \<Rightarrow> jsnum \<Rightarrow> store \<Rightarrow> part list option" where
  "select_part w n d =
     (case int4 n of
        None \<Rightarrow> None
      | Some k \<Rightarrow> Some (filter (\<lambda>p. week_id p = w \<and> number p = k) (parts d)))"

definition set_claim :: "string \<Rightarrow> int \<Rightarrow> string \<Rightarrow> string option \<Rightarrow> nat \<Rightarrow> store \<Rightarrow> store" where
  "set_claim w k u nm now d =
     d\<lparr>parts := map (\<lambda>p. if week_id p = w \<and> number p = k
                          then p\<lparr>claimed_by := Some u, claimed_name := nm, claimed_at := Some now\<rparr>
                          else p) (parts d)\<rparr>"

definition update_part_claim ::
  "string \<Rightarrow> jsnum \<Rightarrow> string \<Rightarrow> string option \<Rightarrow> nat \<Rightarrow> store \<Rightarrow> store option" where
  "update_part_claim w n u nm now d =
     (case int4 n of None \<Rightarrow> None | Some k \<Rightarrow> Some (set_claim w k u nm now d))"

definition clear_claim :: "string \<Rightarrow> int \<Rightarrow> store \<Rightarrow> store" where
  "clear_claim w k d =
     d\<lparr>parts := map (\<lambda>p. if week_id p = w \<and> number p = k
                          then p\<lparr>claimed_by := None, claimed_name := None, claimed_at := None\<rparr>
                          else p) (parts d)\<rparr>"

definition update_part_release :: "string \<Rightarrow> jsnum \<Rightarrow> store \<Rightarrow> store option" where
  "update_part_release w n d =
     (case int4 n of None \<Rightarrow> None | Some k \<Rightarrow> Some (clear_claim w k d))"

definition update_parts_reset :: "string \<Rightarrow> store \<Rightarrow> unit \<times> store" where
  "update_parts_reset w d =
     ((), d\<lparr>parts := map (\<lambda>p. if week_id p = w
                               then p\<lparr>claimed_by := None, claimed_name := None, claimed_at := None\<rparr>
                               else p) (parts d)\<rparr>)"

text \<open>The left join of a part with the users table on \<^verbatim>\<open>u.id = p.claimed_by\<close>.\<close>

definition join_user :: "store \<Rightarrow> part \<Rightarrow> PartRow list" where
  "join_user d p =
     (case filter (\<lambda>u. claimed_by p = Some (id_user u)) (users d) of
        [] \<Rightarrow> [\<lparr> row_number = Finite (of_int (number p)), row_claimed_by = claimed_by p,
                 row_claimed_name = claimed_name p, row_claimed_is_admin = None \<rparr>]
      | us \<Rightarrow> map (\<lambda>u. \<lparr> row_number = Finite (of_int (number p)), row_claimed_by = claimed_by p,
                          row_claimed_name = claimed_name p, row_claimed_is_admin = Some (is_admin u) \<rparr>) us)"

definition select_parts_of_week :: "string \<Rightarrow> store \<Rightarrow> PartRow list" where
  "select_parts_of_week w d =
     concat (map (join_user d) (sort_key number (filter (\<lambda>p. week_id p = w) (parts d))))"

definition select_part_joined :: "string \<Rightarrow> jsnum \<Rightarrow> store \<Rightarrow> PartRow list option" where
  "select_part_joined w n d = map_option (\<lambda>rows. concat (map (join_user d) rows)) (select_part w n d)"

section \<open>Running a handler\<close>

text \<open>
  A handler threads the store through its statements.  \<open>db\<close> is the committed
  store, which \<^verbatim>\<open>pool.query\<close> reads and writes; \<open>txn\<close> is the working copy of
  the transaction the handler's client has open; \<open>issued\<close> counts the statements the
  handler has sent; \<open>trace\<close> records, in order, every successful \<^verbatim>\<open>COMMIT\<close> and
  every event handed to the socket server.  Requests are handled one after another.
\<close>

datatype event = PartUpdate PartRow | WeekReset string "PartRow list"

datatype entry = Committed | Emitted string event

record exec =
  db :: store
  txn :: "store option"
  issued :: nat
  trace :: "entry list"

datatype stmt =
    BEGIN | COMMIT
  | SELECT_USER_BY_PHONE | SELECT_USER_BY_ID | UPDATE_USER | INSERT_USER | UPDATE_USER_ADMIN
  | SELECT_WEEK | INSERT_WEEK | INSERT_PARTS
  | SELECT_PART_FOR_UPDATE | UPDATE_PART_CLAIM | UPDATE_PART_RELEASE | UPDATE_PARTS_RESET
  | SELECT_PARTS | SELECT_PART_JOINED

text \<open>
  The fault schedule of one request: \<open>fails k q\<close> says that the handler's statement
  number \<open>k\<close> (counted from 0), which is the statement \<open>q\<close>, raises.
  \<^verbatim>\<open>ROLLBACK\<close> is taken never to raise: a failure inside a \<^verbatim>\<open>catch\<close>
  block escapes the handler.
\<close>

type_synonym faults = "nat \<Rightarrow> stmt \<Rightarrow> bool"

definition no_fault :: faults where
  "no_fault k q = False"

text \<open>The schedule in which exactly the statements \<open>q0\<close> raise.\<close>

definition only :: "stmt \<Rightarrow> faults" where
  "only q0 k q = (q = q0)"

datatype 'a outcome = Ok 'a | Thrown string

type_synonym 'a io = "exec \<Rightarrow> 'a outcome \<times> exec"

definition returns :: "'a \<Rightarrow> 'a io" where
  "returns a s = (Ok a, s)"

definition throw :: "string \<Rightarrow> 'a io" where
  "throw e s = (Thrown e, s)"

definition andThen :: "'a io \<Rightarrow> ('a \<Rightarrow> 'b io) \<Rightarrow> 'b io" where
  "andThen m f s = (case m s of (Ok a, s') \<Rightarrow> f a s' | (Thrown e, s') \<Rightarrow> (Thrown e, s'))"

definition tryCatch :: "'a io \<Rightarrow> (string \<Rightarrow> 'a io) \<Rightarrow> 'a io" where
  "tryCatch m h s = (case m s of (Ok a, s') \<Rightarrow> (Ok a, s') | (Thrown e, s') \<Rightarrow> h e s')"

definition pool_query :: "faults \<Rightarrow> stmt \<Rightarrow> (store \<Rightarrow> 'a \<times> store) \<Rightarrow> 'a io" where
  "pool_query fails q f s =
     (if fails (issued s) q then (Thrown ''DB_ERROR'', s\<lparr>issued := Suc (issued s)\<rparr>)
      else (case f (db s) of (a, d) \<Rightarrow> (Ok a, s\<lparr>db := d, issued := Suc (issued s)\<rparr>)))"

definition client_query :: "faults \<Rightarrow> stmt \<Rightarrow> (store \<Rightarrow> 'a \<times> store) \<Rightarrow> 'a io" where
  "client_query fails q f s =
     (if fails (issued s) q then (Thrown ''DB_ERROR'', s\<lparr>issued := Suc (issued s)\<rparr>)
      else (case txn s of
              None \<Rightarrow> (case f (db s) of (a, d) \<Rightarrow> (Ok a, s\<lparr>db := d, issued := Suc (issued s)\<rparr>))
            | Some t \<Rightarrow> (case f t of (a, t') \<Rightarrow> (Ok a, s\<lparr>txn := Some t', issued := Suc (issued s)\<rparr>))))"

text \<open>
  The statements that bind a part number: the statement raises when the schedule says
  so, and when the store cannot read the number.
\<close>

definition pool_select :: "faults \<Rightarrow> stmt \<Rightarrow> (store \<Rightarrow> 'a option) \<Rightarrow> 'a io" where
  "pool_select fails q f s =
     (if fails (issued s) q then (Thrown ''DB_ERROR'', s\<lparr>issued := Suc (issued s)\<rparr>)
      else (case f (db s) of
              None \<Rightarrow> (Thrown ''DB_ERROR'', s\<lparr>issued := Suc (issued s)\<rparr>)
            | Some a \<Rightarrow> (Ok a, s\<lparr>issued := Suc (issued s)\<rparr>)))"

definition client_select :: "faults \<Rightarrow> stmt \<Rightarrow> (store \<Rightarrow> 'a option) \<Rightarrow> 'a io" where
  "client_select fails q f s =
     (if fails (issued s) q then (Thrown ''DB_ERROR'', s\<lparr>issued := Suc (issued s)\<rparr>)
      else (case f (case txn s of None \<Rightarrow> db s | Some t \<Rightarrow> t) of
              None \<Rightarrow> (Thrown ''DB_ERROR'', s\<lparr>issued := Suc (issued s)\<rparr>)
            | Some a \<Rightarrow> (Ok a, s\<lparr>issued := Suc (issued s)\<rparr>)))"

definition client_update :: "faults \<Rightarrow> stmt \<Rightarrow> (store \<Rightarrow> store option) \<Rightarrow> unit io" where
  "client_update fails q f s =
     (if fails (issued s) q then (Thrown ''DB_ERROR'', s\<lparr>issued := Suc (issued s)\<rparr>)
      else (case txn s of
              None \<Rightarrow> (case f (db s) of
                          None \<Rightarrow> (Thrown ''DB_ERROR'', s\<lparr>issued := Suc (issued s)\<rparr>)
                        | Some d \<Rightarrow> (Ok (), s\<lparr>db := d, issued := Suc (issued s)\<rparr>))
            | Some t \<Rightarrow> (case f t of
                          None \<Rightarrow> (Thrown ''DB_ERROR'', s\<lparr>issued := Suc (issued s)\<rparr>)
                        | Some t' \<Rightarrow> (Ok (), s\<lparr>txn := Some t', issued := Suc (issued s)\<rparr>))))"

definition client_begin :: "faults \<Rightarrow> unit io" where
  "client_begin fails s =
     (if fails (issued s) BEGIN then (Thrown ''DB_ERROR'', s\<lparr>issued := Suc (issued s)\<rparr>)
      else (Ok (), s\<lparr>txn := Some (case txn s of None \<Rightarrow> db s | Some t \<Rightarrow> t), issued := Suc (issued s)\<rparr>))"

definition client_commit :: "faults \<Rightarrow> unit io" where
  "client_commit fails s =
     (if fails (issued s) COMMIT then (Thrown ''DB_ERROR'', s\<lparr>issued := Suc (issued s)\<rparr>)
      else (case txn s of
              None \<Rightarrow> (Ok (), s\<lparr>issued := Suc (issued s)\<rparr>)
            | Some t \<Rightarrow> (Ok (), s\<lparr>db := t, txn := None, issued := Suc (issued s),
                                  trace := trace s @ [Committed]\<rparr>)))"

definition client_rollback :: "unit io" where
  "client_rollback s = (Ok (), s\<lparr>txn := None\<rparr>)"

text \<open>\<^verbatim>\<open>io.to(room).emit(...)\<close>\<close>

definition emit :: "string \<Rightarrow> event \<Rightarrow> unit io" where
  "emit room e s = (Ok (), s\<lparr>trace := trace s @ [Emitted room e]\<rparr>)"

text \<open>
  \<^verbatim>\<open>rows[0]\<close> of a result whose row is used next.  On an empty result JavaScript
  yields \<^verbatim>\<open>undefined\<close> and raises a TypeError at the first property access.
\<close>

definition first_row :: "'a list \<Rightarrow> 'a io" where
  "first_row rows = (case rows of [] \<Rightarrow> throw ''TypeError'' | r # _ \<Rightarrow> returns r)"

section \<open>The functions of the server\<close>

record profile =
  profile_name :: "string option"
  profile_phone :: "string option"

definition loginUser :: "faults \<Rightarrow> config \<Rightarrow> string \<Rightarrow> string \<Rightarrow> string \<Rightarrow> DbUserRow io" where
  "loginUser fails cfg authKey nameInput phoneInput =
     (let nm = or_else (Some (trim nameInput)) None;
          phone = normalizePhone (Some phoneInput)
      in case phone of
           None \<Rightarrow> throw ''PHONE_REQUIRED''
         | Some ph \<Rightarrow>
             if ph = [] then throw ''PHONE_REQUIRED''
             else andThen (pool_query fails SELECT_USER_BY_PHONE (\<lambda>d. (select_users_by_phone ph d, d)))
               (\<lambda>existing. case existing of
                   current # _ \<Rightarrow>
                     (let updatedAdmin = computeAdminFlag cfg (or_else nm (name current)) phone (is_admin current)
                      in andThen (pool_query fails UPDATE_USER
                                    (update_user (id_user current) (or_else nm (name current)) phone updatedAdmin))
                           first_row)
                 | [] \<Rightarrow>
                     (let isAdmin = computeAdminFlag cfg nm phone False
                      in andThen (pool_query fails INSERT_USER (insert_user authKey nm phone isAdmin))
                           first_row)))"

definition getUserById :: "faults \<Rightarrow> string \<Rightarrow> DbUserRow io" where
  "getUserById fails i =
     andThen (pool_query fails SELECT_USER_BY_ID (\<lambda>d. (select_users_by_id i d, d)))
       (\<lambda>rows. case rows of [] \<Rightarrow> throw ''USER_NOT_FOUND'' | r # _ \<Rightarrow> returns r)"

definition updateUserProfile :: "faults \<Rightarrow> config \<Rightarrow> string \<Rightarrow> profile \<Rightarrow> DbUserRow io" where
  "updateUserProfile fails cfg userId pr =
     andThen (getUserById fails userId)
       (\<lambda>existing.
          let nm = or_else (map_option trim (profile_name pr)) (name existing);
              ph = normalizePhone (or_else (profile_phone pr) (phone existing));
              isAdmin = computeAdminFlag cfg nm ph (is_admin existing)
          in andThen (pool_query fails UPDATE_USER (update_user userId nm ph isAdmin)) first_row)"

definition ensureWeek :: "faults \<Rightarrow> string \<Rightarrow> string io" where
  "ensureWeek fails weekKey =
     andThen (client_query fails SELECT_WEEK (\<lambda>d. (select_weeks weekKey d, d)))
       (\<lambda>existing. case existing of
           w # _ \<Rightarrow> returns (id_week w)
         | [] \<Rightarrow>
             andThen (client_query fails INSERT_WEEK (insert_week weekKey))
               (\<lambda>inserted. andThen (first_row inserted)
                  (\<lambda>w. andThen (client_query fails INSERT_PARTS (insert_parts (id_week w)))
                     (\<lambda>_. returns (id_week w)))))"

definition getWeek :: "faults \<Rightarrow> string \<Rightarrow> (string \<times> string) io" where
  "getWeek fails weekKey =
     andThen (client_query fails SELECT_WEEK (\<lambda>d. (select_weeks weekKey d, d)))
       (\<lambda>rows. case rows of
           w # _ \<Rightarrow> returns (id_week w, week_key w)
         | [] \<Rightarrow> andThen (ensureWeek fails weekKey) (\<lambda>i. returns (i, weekKey)))"

definition fetchParts :: "faults \<Rightarrow> string \<Rightarrow> (PartRow list) io" where
  "fetchParts fails weekId = pool_query fails SELECT_PARTS (\<lambda>d. (select_parts_of_week weekId d, d))"

definition broadcastPartUpdate :: "string \<Rightarrow> PartRow \<Rightarrow> unit io" where
  "broadcastPartUpdate weekId payload = emit weekId (PartUpdate payload)"

section \<open>The handlers\<close>

text \<open>
  A response is its status and its JSON body.  The session token of the login and
  profile responses signs the four fields the body shows and is left out.  The
  handlers behind \<^verbatim>\<open>verify\<close> take the user id of the verified session.
\<close>

datatype body =
    Error string
  | UserBody string "string option" "string option" bool
  | WeekBody string string "PartRow list"
  | PartBody PartRow
  | ResetBody string "PartRow list"
  | AdminBody string bool

record response =
  status :: nat
  json :: body

definition login :: "faults \<Rightarrow> config \<Rightarrow> string \<Rightarrow> string option \<Rightarrow> string option \<Rightarrow> response io" where
  "login fails cfg authKey nm ph =
     (case (nm, ph) of
        (Some nameInput, Some phoneInput) \<Rightarrow>
          if nameInput = [] \<or> phoneInput = []
          then returns \<lparr> status = 400, json = Error ''NAME_AND_PHONE_REQUIRED'' \<rparr>
          else tryCatch
            (andThen (loginUser fails cfg authKey nameInput phoneInput)
               (\<lambda>user. returns \<lparr> status = 200,
                   json = UserBody (id_user user) (name user) (phone user) (is_admin user) \<rparr>))
            (\<lambda>error. returns \<lparr> status = 500, json = Error ''LOGIN_FAILED'' \<rparr>)
      | _ \<Rightarrow> returns \<lparr> status = 400, json = Error ''NAME_AND_PHONE_REQUIRED'' \<rparr>)"

definition postProfile :: "faults \<Rightarrow> config \<Rightarrow> string \<Rightarrow> profile \<Rightarrow> response io" where
  "postProfile fails cfg userId pr =
     tryCatch
       (andThen (updateUserProfile fails cfg userId pr)
          (\<lambda>user. returns \<lparr> status = 200,
              json = UserBody (id_user user) (name user) (phone user) (is_admin user) \<rparr>))
       (\<lambda>error. returns \<lparr> status = 500, json = Error ''PROFILE_FAILED'' \<rparr>)"

definition resolveWeek :: "faults \<Rightarrow> string \<Rightarrow> response io" where
  "resolveWeek fails weekKey =
     (if weekKey = [] then returns \<lparr> status = 400, json = Error ''WEEK_REQUIRED'' \<rparr>
      else tryCatch
        (andThen (client_begin fails) (\<lambda>_.
         andThen (getWeek fails weekKey) (\<lambda>week.
         andThen (client_commit fails) (\<lambda>_.
         andThen (fetchParts fails (fst week)) (\<lambda>parts.
         returns \<lparr> status = 200, json = WeekBody (fst week) (snd week) parts \<rparr>)))))
        (\<lambda>error. andThen client_rollback
           (\<lambda>_. returns \<lparr> status = 500, json = Error ''WEEK_FETCH_FAILED'' \<rparr>)))"

definition claimPart ::
  "faults \<Rightarrow> config \<Rightarrow> nat \<Rightarrow> string \<Rightarrow> string \<Rightarrow> jsnum \<Rightarrow> profile \<Rightarrow> response io" where
  "claimPart fails cfg now userId weekId n pr =
     (if weekId = [] \<or> isNaN n then returns \<lparr> status = 400, json = Error ''BAD_REQUEST'' \<rparr>
      else tryCatch
        (andThen (getUserById fails userId) (\<lambda>user0.
         andThen (if truthy (profile_name pr) \<or> truthy (profile_phone pr)
                  then updateUserProfile fails cfg (id_user user0) pr
                  else returns user0) (\<lambda>user.
         andThen (client_begin fails) (\<lambda>_.
         andThen (client_select fails SELECT_PART_FOR_UPDATE (select_part weekId n)) (\<lambda>existing.
         case existing of
           [] \<Rightarrow> andThen client_rollback
                  (\<lambda>_. returns \<lparr> status = 404, json = Error ''PART_NOT_FOUND'' \<rparr>)
         | row # _ \<Rightarrow>
             if truthy (claimed_by row)
             then andThen client_rollback
                    (\<lambda>_. returns \<lparr> status = 409, json = Error ''ALREADY_CLAIMED'' \<rparr>)
             else
               (let claimedName = or_else (or_else (map_option trim (profile_name pr)) (name user)) None
                in andThen (client_update fails UPDATE_PART_CLAIM
                              (update_part_claim weekId n (id_user user) claimedName now)) (\<lambda>_.
                   andThen (client_commit fails) (\<lambda>_.
                   (let payload = \<lparr> row_number = n, row_claimed_by = Some (id_user user),
                                     row_claimed_name = claimedName,
                                     row_claimed_is_admin = Some (is_admin user) \<rparr>
                    in andThen (broadcastPartUpdate weekId payload) (\<lambda>_.
                       returns \<lparr> status = 200, json = PartBody payload \<rparr>))))))))))
        (\<lambda>error. andThen client_rollback
           (\<lambda>_. returns \<lparr> status = 500, json = Error ''CLAIM_FAILED'' \<rparr>)))"

definition releasePart :: "faults \<Rightarrow> string \<Rightarrow> string \<Rightarrow> jsnum \<Rightarrow> response io" where
  "releasePart fails userId weekId n =
     (if weekId = [] \<or> isNaN n then returns \<lparr> status = 400, json = Error ''BAD_REQUEST'' \<rparr>
      else tryCatch
        (andThen (getUserById fails userId) (\<lambda>user.
         andThen (client_begin fails) (\<lambda>_.
         andThen (client_select fails SELECT_PART_FOR_UPDATE (select_part weekId n)) (\<lambda>existing.
         case existing of
           [] \<Rightarrow> andThen client_rollback
                  (\<lambda>_. returns \<lparr> status = 404, json = Error ''PART_NOT_FOUND'' \<rparr>)
         | row # _ \<Rightarrow>
             if \<not> truthy (claimed_by row) \<or> claimed_by row \<noteq> Some (id_user user)
             then andThen client_rollback
                    (\<lambda>_. returns \<lparr> status = 403, json = Error ''NOT_OWNER'' \<rparr>)
             else
               andThen (client_update fails UPDATE_PART_RELEASE (update_part_release weekId n)) (\<lambda>_.
               andThen (client_commit fails) (\<lambda>_.
               (let payload = \<lparr> row_number = n, row_claimed_by = None, row_claimed_name = None,
                                 row_claimed_is_admin = None \<rparr>
                in andThen (broadcastPartUpdate weekId payload) (\<lambda>_.
                   returns \<lparr> status = 200, json = PartBody payload \<rparr>))))))))
        (\<lambda>error. andThen client_rollback
           (\<lambda>_. returns \<lparr> status = 500, json = Error ''RELEASE_FAILED'' \<rparr>)))"

definition resetWeek :: "faults \<Rightarrow> config \<Rightarrow> string \<Rightarrow> string \<Rightarrow> profile \<Rightarrow> response io" where
  "resetWeek fails cfg userId weekKey pr =
     (if weekKey = [] then returns \<lparr> status = 400, json = Error ''WEEK_REQUIRED'' \<rparr>
      else tryCatch
        (andThen (getUserById fails userId) (\<lambda>user0.
         andThen (if truthy (profile_name pr) \<or> truthy (profile_phone pr)
                  then updateUserProfile fails cfg (id_user user0) pr
                  else returns user0) (\<lambda>user.
         andThen (client_begin fails) (\<lambda>_.
         if \<not> is_admin user
         then andThen client_rollback
                (\<lambda>_. returns \<lparr> status = 403, json = Error ''NOT_ADMIN'' \<rparr>)
         else
           andThen (getWeek fails weekKey) (\<lambda>week.
           andThen (client_query fails UPDATE_PARTS_RESET (update_parts_reset (fst week))) (\<lambda>_.
           andThen (client_commit fails) (\<lambda>_.
           andThen (fetchParts fails (fst week)) (\<lambda>freshParts.
           andThen (emit (fst week) (WeekReset (fst week) freshParts)) (\<lambda>_.
           returns \<lparr> status = 200, json = ResetBody (fst week) freshParts \<rparr>)))))))))
        (\<lambda>error. andThen client_rollback
           (\<lambda>_. returns \<lparr> status = 500, json = Error ''RESET_FAILED'' \<rparr>)))"

definition setAdmin ::
  "faults \<Rightarrow> string \<Rightarrow> string \<Rightarrow> bool option \<Rightarrow> string option \<Rightarrow> jsnum option \<Rightarrow> response io" where
  "setAdmin fails sessionUserId userId makeAdmin weekId partNumber =
     (case makeAdmin of
        None \<Rightarrow> returns \<lparr> status = 400, json = Error ''INVALID_BODY'' \<rparr>
      | Some mk \<Rightarrow>
          tryCatch
            (andThen (getUserById fails sessionUserId) (\<lambda>actor.
             if \<not> is_admin actor then returns \<lparr> status = 403, json = Error ''NOT_ADMIN'' \<rparr>
             else
               andThen (pool_query fails UPDATE_USER_ADMIN (update_user_admin userId mk)) (\<lambda>update.
               case update of
                 [] \<Rightarrow> returns \<lparr> status = 404, json = Error ''USER_NOT_FOUND'' \<rparr>
               | u # _ \<Rightarrow>
                   andThen
                     (case (weekId, partNumber) of
                        (Some w, Some k) \<Rightarrow>
                          if w \<noteq> [] \<and> isInteger (Some k)
                          then andThen (pool_select fails SELECT_PART_JOINED (select_part_joined w k))
                                 (\<lambda>part. case part of
                                     [] \<Rightarrow> returns ()
                                   | r # _ \<Rightarrow> broadcastPartUpdate w r)
                          else returns ()
                      | _ \<Rightarrow> returns ())
                     (\<lambda>_. returns \<lparr> status = 200, json = AdminBody userId (is_admin u) \<rparr>))))
            (\<lambda>error. returns \<lparr> status = 500, json = Error ''ADMIN_TOGGLE_FAILED'' \<rparr>))"

section \<open>Sequences of requests\<close>

datatype request =
    Login string "string option" "string option"
  | PostProfile string profile
  | ResolveWeek string
  | ClaimPart string string jsnum profile
  | ReleasePart string string jsnum
  | ResetWeek string string profile
  | SetAdmin string string "bool option" "string option" "jsnum option"

text \<open>One request: the statements it sends are counted from 0, \<open>now\<close> is the store's
  clock when it arrives.\<close>

fun serve :: "config \<Rightarrow> faults \<Rightarrow> nat \<Rightarrow> request \<Rightarrow> response io" where
  "serve cfg fails now (Login authKey nm ph) s = login fails cfg authKey nm ph (s\<lparr>issued := 0\<rparr>)"
| "serve cfg fails now (PostProfile userId pr) s = postProfile fails cfg userId pr (s\<lparr>issued := 0\<rparr>)"
| "serve cfg fails now (ResolveWeek weekKey) s = resolveWeek fails weekKey (s\<lparr>issued := 0\<rparr>)"
| "serve cfg fails now (ClaimPart userId weekId n pr) s =
     claimPart fails cfg now userId weekId n pr (s\<lparr>issued := 0\<rparr>)"
| "serve cfg fails now (ReleasePart userId weekId n) s = releasePart fails userId weekId n (s\<lparr>issued := 0\<rparr>)"
| "serve cfg fails now (ResetWeek userId weekKey pr) s = resetWeek fails cfg userId weekKey pr (s\<lparr>issued := 0\<rparr>)"
| "serve cfg fails now (SetAdmin sessionUserId userId mk w k) s =
     setAdmin fails sessionUserId userId mk w k (s\<lparr>issued := 0\<rparr>)"

fun run :: "config \<Rightarrow> (faults \<times> nat \<times> request) list \<Rightarrow> exec \<Rightarrow> exec" where
  "run cfg [] s = s"
| "run cfg ((fails, now, r) # rs) s = run cfg rs (snd (serve cfg fails now r s))"

definition start :: exec where
  "start = \<lparr> db = \<lparr> users = [], weeks = [], parts = [] \<rparr>, txn = None, issued = 0, trace = [] \<rparr>"

section \<open>Notions used to state and prove the properties\<close>

text \<open>
  \<open>wp m Q E s\<close>: run from \<open>s\<close>, the computation \<open>m\<close> either returns a value and
  a state that satisfy \<open>Q\<close>, or raises an error and leaves a state that satisfy \<open>E\<close>.
\<close>

definition wp :: "'a io \<Rightarrow> ('a \<Rightarrow> exec \<Rightarrow> bool) \<Rightarrow> (string \<Rightarrow> exec \<Rightarrow> bool) \<Rightarrow> exec \<Rightarrow> bool" where
  "wp m Q E s = (case m s of (Ok a, s') \<Rightarrow> Q a s' | (Thrown e, s') \<Rightarrow> E e s')"

text \<open>
  \<open>reaches d d'\<close>: the store \<open>d'\<close> comes from \<open>d\<close> by the writes the server can
  commit.  A week only ever appears together with its parts, because both inserts are
  made in one transaction.
\<close>

inductive reaches :: "store \<Rightarrow> store \<Rightarrow> bool" where
  same: "reaches d d"
| user_updated: "reaches d d' \<Longrightarrow> reaches d (snd (update_user i nm ph adm d'))"
| user_inserted: "reaches d d' \<Longrightarrow> reaches d (snd (insert_user k nm ph adm d'))"
| admin_updated: "reaches d d' \<Longrightarrow> reaches d (snd (update_user_admin i adm d'))"
| week_created: "reaches d d' \<Longrightarrow>
     reaches d (snd (insert_parts (id_week (new_week k d')) (snd (insert_week k d'))))"
| part_claimed: "reaches d d' \<Longrightarrow> reaches d (set_claim w k u nm now d')"
| part_released: "reaches d d' \<Longrightarrow> reaches d (clear_claim w k d')"
| parts_reset: "reaches d d' \<Longrightarrow> reaches d (snd (update_parts_reset w d'))"

text \<open>Between two requests no transaction is open.\<close>

definition settled :: "store \<Rightarrow> exec \<Rightarrow> bool" where
  "settled d s = (reaches d (db s) \<and> txn s = None)"

text \<open>The relation between the three claim fields of a part that the server keeps.\<close>

definition claim_consistent :: "part \<Rightarrow> bool" where
  "claim_consistent p =
     ((claimed_by p = None \<longleftrightarrow> claimed_at p = None) \<and> (claimed_by p = None \<longrightarrow> claimed_name p = None))"

text \<open>Every week of the store has the parts 1 to 30, each once, and no other.\<close>

definition weeks_complete :: "store \<Rightarrow> bool" where
  "weeks_complete d =
     (\<forall>w \<in> set (weeks d). map number (filter (\<lambda>p. week_id p = id_week w) (parts d)) = [1..30])"

text \<open>The caller's \<open>is_admin\<close> once the profile hint of a request has been merged into the
  caller's row, as \<open>claimPart\<close> and \<open>resetWeek\<close> do before they open the transaction.\<close>

definition merged_is_admin :: "config \<Rightarrow> profile \<Rightarrow> DbUserRow \<Rightarrow> bool" where
  "merged_is_admin cfg pr u =
     (if truthy (profile_name pr) \<or> truthy (profile_phone pr)
      then computeAdminFlag cfg (or_else (map_option trim (profile_name pr)) (name u))
             (normalizePhone (or_else (profile_phone pr) (phone u))) (is_admin u)
      else is_admin u)"

text \<open>The row of a free part in a snapshot.\<close>

definition free_row :: "int \<Rightarrow> PartRow" where
  "free_row i = \<lparr> row_number = Finite (of_int i), row_claimed_by = None, row_claimed_name = None,
                  row_claimed_is_admin = None \<rparr>"

section \<open>A scenario\<close>

text \<open>
  The configuration with the admin name \<open>Admin\<close> and the default list of admin
  phones; three logins (Ann, the admin, and a user whose name is blank), the week
  \<open>W1\<close>, and part 5 claimed by the admin.  The statements below are instantiated on
  the state these five requests leave.
\<close>

definition cfg_ex :: config where
  "cfg_ex = load_config ''Admin'' ''+971523783612''"

definition no_hint :: profile where
  "no_hint = \<lparr> profile_name = None, profile_phone = None \<rparr>"

definition example_requests :: "(faults \<times> nat \<times> request) list" where
  "example_requests =
     [(no_fault, 1, Login ''k1'' (Some ''Ann'') (Some ''111'')),
      (no_fault, 2, Login ''k2'' (Some ''Admin'') (Some ''222'')),
      (no_fault, 3, Login ''k3'' (Some ''  '') (Some ''333'')),
      (no_fault, 4, ResolveWeek ''W1''),
      (no_fault, 7, ClaimPart ''uu'' ''w'' (Finite 5) no_hint)]"

definition example :: exec where
  "example = run cfg_ex example_requests start"

definition example_store :: store where
  "example_store =
     \<lparr> users = [\<lparr> id_user = ''u'', firebase_uid = ''k1'', name = Some ''Ann'', phone = Some ''+111'', is_admin = False \<rparr>,
                \<lparr> id_user = ''uu'', firebase_uid = ''k2'', name = Some ''Admin'', phone = Some ''+222'', is_admin = True \<rparr>,
                \<lparr> id_user = ''uuu'', firebase_uid = ''k3'', name = None, phone = Some ''+333'', is_admin = False \<rparr>],
       weeks = [\<lparr> id_week = ''w'', week_key = ''W1'' \<rparr>],
       parts = map (free_part ''w'') [1..4]
                 @ [\<lparr> week_id = ''w'', number = 5, claimed_by = Some ''uu'', claimed_name = Some ''Admin'',
                        claimed_at = Some 7 \<rparr>]
                 @ map (free_part ''w'') [6..30] \<rparr>"

section \<open>Rules for computations\<close>

lemma wp_returns: "wp (returns a) Q E s = Q a s"
  by (simp add: wp_def returns_def)

lemma wp_throw: "wp (throw e) Q E s = E e s"
  by (simp add: wp_def throw_def)

lemma wp_andThen: "wp (andThen m f) Q E s = wp m (\<lambda>a. wp (f a) Q E) E s"
  by (simp add: wp_def andThen_def split: prod.split outcome.split)

lemma wp_tryCatch: "wp (tryCatch m h) Q E s = wp m Q (\<lambda>e. wp (h e) Q E) s"
  by (simp add: wp_def tryCatch_def split: prod.split outcome.split)

lemma wp_pool_query:
  "wp (pool_query fails q f) Q E s =
     (if fails (issued s) q then E ''DB_ERROR'' (s\<lparr>issued := Suc (issued s)\<rparr>)
      else Q (fst (f (db s))) (s\<lparr>db := snd (f (db s)), issued := Suc (issued s)\<rparr>))"
  by (simp add: wp_def pool_query_def split: prod.split)

lemma wp_client_query:
  "wp (client_query fails q f) Q E s =
     (if fails (issued s) q then E ''DB_ERROR'' (s\<lparr>issued := Suc (issued s)\<rparr>)
      else (case txn s of
              None \<Rightarrow> Q (fst (f (db s))) (s\<lparr>db := snd (f (db s)), issued := Suc (issued s)\<rparr>)
            | Some t \<Rightarrow> Q (fst (f t)) (s\<lparr>txn := Some (snd (f t)), issued := Suc (issued s)\<rparr>)))"
  by (simp add: wp_def client_query_def split: prod.split option.split)

lemma wp_pool_select:
  "wp (pool_select fails q f) Q E s =
     (if fails (issued s) q then E ''DB_ERROR'' (s\<lparr>issued := Suc (issued s)\<rparr>)
      else (case f (db s) of
              None \<Rightarrow> E ''DB_ERROR'' (s\<lparr>issued := Suc (issued s)\<rparr>)
            | Some a \<Rightarrow> Q a (s\<lparr>issued := Suc (issued s)\<rparr>)))"
  by (simp add: wp_def pool_select_def split: option.split)

lemma wp_client_select:
  "wp (client_select fails q f) Q E s =
     (if fails (issued s) q then E ''DB_ERROR'' (s\<lparr>issued := Suc (issued s)\<rparr>)
      else (case f (case txn s of None \<Rightarrow> db s | Some t \<Rightarrow> t) of
              None \<Rightarrow> E ''DB_ERROR'' (s\<lparr>issued := Suc (issued s)\<rparr>)
            | Some a \<Rightarrow> Q a (s\<lparr>issued := Suc (issued s)\<rparr>)))"
  by (simp add: wp_def client_select_def split: option.split)

lemma wp_client_update:
  "wp (client_update fails q f) Q E s =
     (if fails (issued s) q then E ''DB_ERROR'' (s\<lparr>issued := Suc (issued s)\<rparr>)
      else (case txn s of
              None \<Rightarrow> (case f (db s) of
                          None \<Rightarrow> E ''DB_ERROR'' (s\<lparr>issued := Suc (issued s)\<rparr>)
                        | Some d \<Rightarrow> Q () (s\<lparr>db := d, issued := Suc (issued s)\<rparr>))
            | Some t \<Rightarrow> (case f t of
                          None \<Rightarrow> E ''DB_ERROR'' (s\<lparr>issued := Suc (issued s)\<rparr>)
                        | Some t' \<Rightarrow> Q () (s\<lparr>txn := Some t', issued := Suc (issued s)\<rparr>))))"
  by (simp add: wp_def client_update_def split: option.split)

lemma wp_client_begin:
  "wp (client_begin fails) Q E s =
     (if fails (issued s) BEGIN then E ''DB_ERROR'' (s\<lparr>issued := Suc (issued s)\<rparr>)
      else Q () (s\<lparr>txn := Some (case txn s of None \<Rightarrow> db s | Some t \<Rightarrow> t), issued := Suc (issued s)\<rparr>))"
  by (simp add: wp_def client_begin_def)

lemma wp_client_commit:
  "wp (client_commit fails) Q E s =
     (if fails (issued s) COMMIT then E ''DB_ERROR'' (s\<lparr>issued := Suc (issued s)\<rparr>)
      else (case txn s of
              None \<Rightarrow> Q () (s\<lparr>issued := Suc (issued s)\<rparr>)
            | Some t \<Rightarrow> Q () (s\<lparr>db := t, txn := None, issued := Suc (issued s),
                                  trace := trace s @ [Committed]\<rparr>)))"
  by (simp add: wp_def client_commit_def split: option.split)

lemma wp_client_rollback: "wp client_rollback Q E s = Q () (s\<lparr>txn := None\<rparr>)"
  by (simp add: wp_def client_rollback_def)

lemma wp_emit: "wp (emit room e) Q E s = Q () (s\<lparr>trace := trace s @ [Emitted room e]\<rparr>)"
  by (simp add: wp_def emit_def)

lemma wp_first_row:
  "wp (first_row rows) Q E s = (case rows of [] \<Rightarrow> E ''TypeError'' s | r # _ \<Rightarrow> Q r s)"
  by (simp add: wp_def first_row_def returns_def throw_def split: list.split)

lemma wp_result: "wp m Q (\<lambda>e s'. False) s \<Longrightarrow> \<exists>a s'. m s = (Ok a, s') \<and> Q a s'"
  by (cases "m s") (auto simp: wp_def split: outcome.splits)

lemma wp_snd: "wp m (\<lambda>a. P) (\<lambda>e. P) s \<Longrightarrow> P (snd (m s))"
  by (cases "m s") (auto simp: wp_def split: outcome.splits)

lemmas wp_simps = wp_returns wp_throw wp_andThen wp_tryCatch wp_pool_query wp_client_query
  wp_pool_select wp_client_select wp_client_update
  wp_client_begin wp_client_commit wp_client_rollback wp_emit wp_first_row

lemmas fn_defs = getUserById_def updateUserProfile_def ensureWeek_def getWeek_def fetchParts_def
  broadcastPartUpdate_def loginUser_def

lemma fst_insert_week: "fst (insert_week k d) = [new_week k d]"
  by (simp add: insert_week_def)

lemma fst_insert_user: "fst (insert_user a nm ph adm d) = [new_user a nm ph adm d]"
  by (simp add: insert_user_def)

section \<open>What the committed writes preserve\<close>

lemmas stmt_defs = update_user_def insert_user_def update_user_admin_def insert_week_def
  insert_parts_def set_claim_def clear_claim_def update_parts_reset_def

lemma fold_max_ge: "a \<le> fold (\<lambda>u n. max (length u) n) used a"
proof (induction used arbitrary: a)
  case Nil
  show ?case by simp
next
  case (Cons x xs)
  have "a \<le> max (length x) a" by simp
  also have "\<dots> \<le> fold (\<lambda>u n. max (length u) n) xs (max (length x) a)" by (rule Cons.IH)
  finally show ?case by simp
qed

lemma length_le_fold_max: "u \<in> set used \<Longrightarrow> length u \<le> fold (\<lambda>u n. max (length u) n) used a"
proof (induction used arbitrary: a)
  case Nil
  then show ?case by simp
next
  case (Cons x xs)
  show ?case
  proof (cases "u = x")
    case True
    have "length x \<le> max (length x) a" by simp
    also have "\<dots> \<le> fold (\<lambda>u n. max (length u) n) xs (max (length x) a)" by (rule fold_max_ge)
    finally show ?thesis using True by simp
  next
    case False
    with Cons.prems have "u \<in> set xs" by simp
    then show ?thesis using Cons.IH by simp
  qed
qed

lemma fresh_id_fresh: "fresh_id c used \<notin> set used"
proof
  assume "fresh_id c used \<in> set used"
  then have "length (fresh_id c used) \<le> fold (\<lambda>u n. max (length u) n) used 0"
    by (rule length_le_fold_max)
  then show False by (simp add: fresh_id_def)
qed

lemma fresh_id_nonempty: "fresh_id c used \<noteq> []"
  by (simp add: fresh_id_def)

lemma new_week_fresh_weeks: "w \<in> set (weeks d) \<Longrightarrow> id_week w \<noteq> id_week (new_week k d)"
  using fresh_id_fresh [of "CHR ''w''" "map id_week (weeks d) @ map week_id (parts d)"]
  by (force simp: new_week_def)

lemma new_week_fresh_parts: "p \<in> set (parts d) \<Longrightarrow> week_id p \<noteq> id_week (new_week k d)"
  using fresh_id_fresh [of "CHR ''w''" "map id_week (weeks d) @ map week_id (parts d)"]
  by (force simp: new_week_def)

lemma filter_new_week_parts: "filter (\<lambda>p. week_id p = id_week (new_week k d)) (parts d) = []"
  by (simp add: filter_empty_conv new_week_fresh_parts)

lemma filter_free_parts_same: "filter (\<lambda>p. week_id p = w) (map (free_part w) ns) = map (free_part w) ns"
  by (induction ns) (simp_all add: free_part_def)

lemma filter_free_parts_other: "w' \<noteq> w \<Longrightarrow> filter (\<lambda>p. week_id p = w') (map (free_part w) ns) = []"
  by (induction ns) (simp_all add: free_part_def)

lemma map_number_free_parts: "map (number \<circ> free_part w) ns = ns"
  by (induction ns) (simp_all add: free_part_def)

lemma map_number_filter_update:
  "(\<And>p. week_id (f p) = week_id p) \<Longrightarrow> (\<And>p. number (f p) = number p) \<Longrightarrow>
   map number (filter (\<lambda>p. week_id p = w) (map f ps)) = map number (filter (\<lambda>p. week_id p = w) ps)"
  by (induction ps) simp_all

lemma key_update:
  "(\<lambda>p. (week_id p, number p)) \<circ>
     (\<lambda>p. if c p then p\<lparr>claimed_by := a, claimed_name := b, claimed_at := e\<rparr> else p) =
   (\<lambda>p. (week_id p, number p))"
  by (simp add: fun_eq_iff)

lemma list_all_update:
  "(\<And>p. P (g p)) \<Longrightarrow> list_all P ps \<Longrightarrow> list_all P (map (\<lambda>p. if c p then g p else p) ps)"
  by (induction ps) simp_all

lemma consistent_claimed:
  "claim_consistent (p\<lparr>claimed_by := Some u, claimed_name := nm, claimed_at := Some now\<rparr>)"
  by (simp add: claim_consistent_def)

lemma consistent_cleared:
  "claim_consistent (p\<lparr>claimed_by := None, claimed_name := None, claimed_at := None\<rparr>)"
  by (simp add: claim_consistent_def)

lemma list_all_free_parts: "list_all claim_consistent (map (free_part w) ns)"
  by (induction ns) (simp_all add: claim_consistent_def free_part_def)

lemma reaches_claim_consistent:
  "reaches d d' \<Longrightarrow> list_all claim_consistent (parts d) \<Longrightarrow> list_all claim_consistent (parts d')"
proof (induction rule: reaches.induct)
  case (week_created d d' k)
  then have "list_all claim_consistent (parts d')" by simp
  then show ?case
    by (simp add: stmt_defs list_all_free_parts)
next
  case (part_claimed d d' w n u nm now)
  then have "list_all claim_consistent (parts d')" by simp
  then show ?case
    unfolding stmt_defs by (simp add: list_all_update consistent_claimed consistent_cleared)
next
  case (part_released d d' w n)
  then have "list_all claim_consistent (parts d')" by simp
  then show ?case
    unfolding stmt_defs by (simp add: list_all_update consistent_claimed consistent_cleared)
next
  case (parts_reset d d' w)
  then have "list_all claim_consistent (parts d')" by simp
  then show ?case
    unfolding stmt_defs by (simp add: list_all_update consistent_claimed consistent_cleared)
qed (simp_all add: stmt_defs)

lemma reaches_weeks_complete:
  "reaches d d' \<Longrightarrow> weeks_complete d \<Longrightarrow> weeks_complete d'"
proof (induction rule: reaches.induct)
  case (week_created d d' k)
  then have c: "weeks_complete d'" by simp
  show ?case
    unfolding weeks_complete_def
  proof
    fix w assume "w \<in> set (weeks (snd (insert_parts (id_week (new_week k d')) (snd (insert_week k d')))))"
    then have "w \<in> set (weeks d') \<or> w = new_week k d'"
      by (auto simp: stmt_defs)
    then show "map number (filter (\<lambda>p. week_id p = id_week w)
        (parts (snd (insert_parts (id_week (new_week k d')) (snd (insert_week k d')))))) = [1..30]"
    proof
      assume w: "w \<in> set (weeks d')"
      then have "id_week w \<noteq> id_week (new_week k d')" by (rule new_week_fresh_weeks)
      with w c show ?thesis
        by (simp add: stmt_defs filter_free_parts_other weeks_complete_def)
    next
      assume "w = new_week k d'"
      then show ?thesis
        by (simp add: stmt_defs filter_new_week_parts filter_free_parts_same map_number_free_parts)
    qed
  qed
qed (simp_all add: weeks_complete_def stmt_defs map_number_filter_update)

lemma reaches_weeks_extend: "reaches d d' \<Longrightarrow> \<exists>ws. weeks d' = weeks d @ ws"
proof (induction rule: reaches.induct)
  case (week_created d d' k)
  then obtain ws where "weeks d' = weeks d @ ws" by blast
  then have "weeks (snd (insert_parts (id_week (new_week k d')) (snd (insert_week k d')))) =
      weeks d @ (ws @ [new_week k d'])"
    by (simp add: stmt_defs)
  then show ?case by blast
qed (simp_all add: stmt_defs)

lemma reaches_parts_extend:
  "reaches d d' \<Longrightarrow>
   \<exists>ps. map (\<lambda>p. (week_id p, number p)) (parts d') = map (\<lambda>p. (week_id p, number p)) (parts d) @ ps"
proof (induction rule: reaches.induct)
  case (week_created d d' k)
  then obtain ps where "map (\<lambda>p. (week_id p, number p)) (parts d') =
      map (\<lambda>p. (week_id p, number p)) (parts d) @ ps" by blast
  then have "map (\<lambda>p. (week_id p, number p))
        (parts (snd (insert_parts (id_week (new_week k d')) (snd (insert_week k d'))))) =
      map (\<lambda>p. (week_id p, number p)) (parts d) @
        (ps @ map (\<lambda>p. (week_id p, number p)) (map (free_part (id_week (new_week k d'))) [1..30]))"
    by (simp add: stmt_defs)
  then show ?case by blast
next
  case (part_claimed d d' w n u nm now)
  then show ?case by (simp add: stmt_defs key_update)
next
  case (part_released d d' w n)
  then show ?case by (simp add: stmt_defs key_update)
next
  case (parts_reset d d' w)
  then show ?case by (simp add: stmt_defs key_update)
qed (simp_all add: stmt_defs)

lemma reaches_trans: "reaches d1 d2 \<Longrightarrow> reaches d0 d1 \<Longrightarrow> reaches d0 d2"
proof (induction rule: reaches.induct)
  case (same d)
  then show ?case .
qed (simp_all add: reaches.intros)


section \<open>Every request commits only such writes\<close>

lemmas reaches_rules = reaches.same reaches.user_updated reaches.user_inserted reaches.admin_updated
  reaches.week_created reaches.part_claimed reaches.part_released reaches.parts_reset

lemmas bound_defs = select_part_def update_part_claim_def update_part_release_def

lemma wp_cut:
  "wp m (\<lambda>a. R) (\<lambda>e. R) s \<Longrightarrow> (\<And>a s'. R s' \<Longrightarrow> Q a s') \<Longrightarrow> (\<And>e s'. R s' \<Longrightarrow> E e s') \<Longrightarrow> wp m Q E s"
  by (cases "m s") (auto simp: wp_def split: outcome.splits)

lemma login_settled:
  "txn s = None \<Longrightarrow> wp (login fails cfg k nm ph) (\<lambda>r. settled (db s)) (\<lambda>e. settled (db s)) s"
  unfolding login_def fn_defs Let_def settled_def
  by (simp add: wp_simps reaches_rules split: list.split option.split)

lemma postProfile_settled:
  "txn s = None \<Longrightarrow> wp (postProfile fails cfg uid pr) (\<lambda>r. settled (db s)) (\<lambda>e. settled (db s)) s"
  unfolding postProfile_def fn_defs Let_def settled_def
  by (simp add: wp_simps reaches_rules split: list.split option.split)

lemma resolveWeek_settled:
  "txn s = None \<Longrightarrow> wp (resolveWeek fails k) (\<lambda>r. settled (db s)) (\<lambda>e. settled (db s)) s"
  unfolding resolveWeek_def fn_defs Let_def settled_def
  by (simp add: wp_simps reaches_rules fst_insert_week split: list.split option.split)

lemma claimPart_settled:
  "txn s = None \<Longrightarrow> wp (claimPart fails cfg now uid w n pr) (\<lambda>r. settled (db s)) (\<lambda>e. settled (db s)) s"
  unfolding claimPart_def fn_defs Let_def settled_def
  by (simp add: wp_simps reaches_rules bound_defs split: list.split option.split)

lemma releasePart_settled:
  "txn s = None \<Longrightarrow> wp (releasePart fails uid w n) (\<lambda>r. settled (db s)) (\<lambda>e. settled (db s)) s"
  unfolding releasePart_def fn_defs Let_def settled_def
  by (simp add: wp_simps reaches_rules bound_defs split: list.split option.split)

lemma setAdmin_settled:
  "txn s = None \<Longrightarrow> wp (setAdmin fails suid uid mk w k) (\<lambda>r. settled (db s)) (\<lambda>e. settled (db s)) s"
  unfolding setAdmin_def fn_defs Let_def settled_def
  by (simp add: wp_simps reaches_rules split: list.split option.split)

lemma resetWeek_settled:
  assumes "txn s = None"
  shows "wp (resetWeek fails cfg uid k pr) (\<lambda>r. settled (db s)) (\<lambda>e. settled (db s)) s"
proof (cases "k = []")
  case True
  with assms show ?thesis by (simp add: resetWeek_def wp_simps settled_def reaches.same)
next
  case False
  with assms show ?thesis
    unfolding resetWeek_def
    apply (simp only: if_False wp_tryCatch wp_andThen)
    apply (rule wp_cut [where R = "settled (db s)"])
      apply (simp add: getUserById_def wp_simps settled_def reaches_rules split: list.split)
     apply (simp only: wp_andThen)
     apply (rule wp_cut [where R = "settled (db s)"])
       apply (simp add: updateUserProfile_def getUserById_def Let_def wp_simps settled_def
               reaches_rules split: list.split)
      apply (simp add: getWeek_def ensureWeek_def fetchParts_def wp_simps fst_insert_week
              settled_def reaches_rules split: list.split option.split)
     apply (simp add: wp_simps settled_def)
    apply (simp add: wp_simps settled_def)
    done
qed

lemma settled_trans: "settled d1 s' \<Longrightarrow> reaches d0 d1 \<Longrightarrow> settled d0 s'"
  by (auto simp: settled_def intro: reaches_trans)

lemma serve_settled:
  assumes "settled d0 s"
  shows "settled d0 (snd (serve cfg fails now r s))"
proof -
  let ?s = "s\<lparr>issued := 0\<rparr>"
  have t: "txn ?s = None" and d: "reaches d0 (db ?s)"
    using assms by (simp_all add: settled_def)
  have "settled (db ?s) (snd (serve cfg fails now r s))"
  proof (cases r)
    case (Login k nm ph)
    then show ?thesis using wp_snd [OF login_settled [OF t]] by simp
  next
    case (PostProfile uid pr)
    then show ?thesis using wp_snd [OF postProfile_settled [OF t]] by simp
  next
    case (ResolveWeek k)
    then show ?thesis using wp_snd [OF resolveWeek_settled [OF t]] by simp
  next
    case (ClaimPart uid w n pr)
    then show ?thesis using wp_snd [OF claimPart_settled [OF t]] by simp
  next
    case (ReleasePart uid w n)
    then show ?thesis using wp_snd [OF releasePart_settled [OF t]] by simp
  next
    case (ResetWeek uid k pr)
    then show ?thesis using wp_snd [OF resetWeek_settled [OF t]] by simp
  next
    case (SetAdmin suid uid mk w k)
    then show ?thesis using wp_snd [OF setAdmin_settled [OF t]] by simp
  qed
  then show ?thesis using d by (rule settled_trans)
qed

lemma run_settled: "settled d0 s \<Longrightarrow> settled d0 (run cfg rs s)"
proof (induction rs arbitrary: s)
  case Nil
  then show ?case by simp
next
  case (Cons c rs)
  obtain fails now r where c: "c = (fails, now, r)" by (cases c)
  from Cons.prems have "settled d0 (snd (serve cfg fails now r s))" by (rule serve_settled)
  then show ?case using c Cons.IH by simp
qed

lemma run_reaches: "txn s = None \<Longrightarrow> reaches (db s) (db (run cfg rs s))"
  using run_settled [of "db s" s cfg rs] by (simp add: settled_def reaches.same)

section \<open>The scenario, evaluated\<close>

lemma example_db: "db example = example_store"
  by code_simp

lemma example_txn: "txn example = None"
  by code_simp

lemma cfg_ex_eq: "cfg_ex = \<lparr> DEFAULT_ADMIN_NAME = ''Admin'', ADMIN_PHONE_LIST = [''+971523783612''] \<rparr>"
  by code_simp

section \<open>The admin flag\<close>

lemma first_of_id:
  assumes "distinct (map id_user us)" "filter (\<lambda>u. id_user u = i) us = u0 # rest"
    "u \<in> set us" "id_user u = i"
  shows "u = u0"
proof -
  have "u0 \<in> set (filter (\<lambda>u. id_user u = i) us)" using assms(2) by simp
  then have "u0 \<in> set us" "id_user u0 = i" by simp_all
  moreover have "inj_on id_user (set us)" using assms(1) by (simp add: distinct_map)
  ultimately show ?thesis using assms(3,4) by (auto dest: inj_onD)
qed

lemma list_all2_map_self: "list_all2 P xs (map f xs) = (\<forall>x \<in> set xs. P x (f x))"
  by (simp add: list_all2_map2 list_all2_same)

lemma computeAdminFlag_current: "cur \<Longrightarrow> computeAdminFlag cfg nm ph cur"
  by (simp add: computeAdminFlag_def)

lemma admin_kept_same:
  "list_all2 (\<lambda>u u'. id_user u' = id_user u \<and> (is_admin u \<longrightarrow> is_admin u')) us us"
  by (simp add: list_all2_same)

lemma admin_kept_update:
  assumes "distinct (map id_user (users d))" "\<exists>rest. select_users_by_id i d = u0 # rest"
  shows "list_all2 (\<lambda>u u'. id_user u' = id_user u \<and> (is_admin u \<longrightarrow> is_admin u')) (users d)
     (users (snd (update_user i nm ph (computeAdminFlag cfg nm ph (is_admin u0)) d)))"
proof -
  have "is_admin u \<longrightarrow> computeAdminFlag cfg nm ph (is_admin u0)"
    if "u \<in> set (users d)" "id_user u = i" for u
  proof -
    have "u = u0"
      using assms that by (auto simp: select_users_by_id_def intro: first_of_id)
    then show ?thesis by (simp add: computeAdminFlag_current)
  qed
  then show ?thesis
    by (simp add: update_user_def list_all2_map_self)
qed

lemma updateUserProfile_keeps_admin:
  assumes "distinct (map id_user (users (db s)))"
  shows "wp (postProfile fails cfg userId pr)
     (\<lambda>r s'. list_all2 (\<lambda>u u'. id_user u' = id_user u \<and> (is_admin u \<longrightarrow> is_admin u'))
                 (users (db s)) (users (db s')))
     (\<lambda>e s'. False) s"
  unfolding postProfile_def fn_defs Let_def
  using assms
  by (simp add: wp_simps admin_kept_same admin_kept_update split: list.split)

text \<open>
  Claim C7.  \<open>computeAdminFlag\<close> is the disjunction of the current flag, of the name
  being the configured admin name, and of the phone being in the configured list of
  admin phones (whose entries are never empty).  Hence a flag that is set stays set, and
  a profile update, whatever statements fail, turns no user's \<open>is_admin\<close> from true to
  false (user ids being distinct).
\<close>

theorem admin_flag_is_monotone:
  "computeAdminFlag cfg nm ph cur =
     (cur \<or> (DEFAULT_ADMIN_NAME cfg \<noteq> [] \<and> nm = Some (DEFAULT_ADMIN_NAME cfg))
          \<or> (\<exists>p. ph = Some p \<and> p \<noteq> [] \<and> p \<in> set (ADMIN_PHONE_LIST cfg)))
   \<and> [] \<notin> set (ADMIN_PHONE_LIST (load_config admin_name admin_phones))
   \<and> (cur \<longrightarrow> computeAdminFlag cfg nm ph cur)
   \<and> (distinct (map id_user (users (db s))) \<longrightarrow>
        (\<exists>r s'. postProfile fails cfg userId pr s = (Ok r, s') \<and>
           list_all2 (\<lambda>u u'. id_user u' = id_user u \<and> (is_admin u \<longrightarrow> is_admin u'))
             (users (db s)) (users (db s'))))"
proof (intro conjI impI)
  show "computeAdminFlag cfg nm ph cur =
     (cur \<or> (DEFAULT_ADMIN_NAME cfg \<noteq> [] \<and> nm = Some (DEFAULT_ADMIN_NAME cfg))
          \<or> (\<exists>p. ph = Some p \<and> p \<noteq> [] \<and> p \<in> set (ADMIN_PHONE_LIST cfg)))"
    by (cases ph) (auto simp: computeAdminFlag_def)
  show "[] \<notin> set (ADMIN_PHONE_LIST (load_config admin_name admin_phones))"
    by (auto simp: load_config_def split: option.splits if_splits)
  show "computeAdminFlag cfg nm ph cur" if cur
    using that by (rule computeAdminFlag_current)
  show "\<exists>r s'. postProfile fails cfg userId pr s = (Ok r, s') \<and>
           list_all2 (\<lambda>u u'. id_user u' = id_user u \<and> (is_admin u \<longrightarrow> is_admin u'))
             (users (db s)) (users (db s'))"
    if "distinct (map id_user (users (db s)))"
    using that by (intro wp_result updateUserProfile_keeps_admin)
qed


theorem admin_flag_is_monotone_witness:
  "computeAdminFlag cfg_ex (Some ''Bob'') None True
   \<and> distinct (map id_user (users (db example)))
   \<and> (\<exists>r s'. postProfile no_fault cfg_ex ''uu'' \<lparr> profile_name = Some ''Bob'', profile_phone = None \<rparr> example = (Ok r, s')
         \<and> list_all2 (\<lambda>u u'. id_user u' = id_user u \<and> (is_admin u \<longrightarrow> is_admin u'))
              (users (db example)) (users (db s')))"
proof -
  have d: "distinct (map id_user (users (db example)))"
    by (simp add: example_db example_store_def)
  from admin_flag_is_monotone [where cfg = cfg_ex and nm = "Some ''Bob''" and ph = None and cur = True
      and s = example and fails = no_fault and userId = "''uu''"
      and pr = "\<lparr> profile_name = Some ''Bob'', profile_phone = None \<rparr>"] d
  show ?thesis by simp
qed

section \<open>The three claim fields of a part\<close>

text \<open>
  Claim C1, as the specification states it, fails: a user whose stored name is null
  (a login with a blank name) claims a part without a name override, and the part ends
  with \<open>claimed_by\<close> and \<open>claimed_at\<close> set and \<open>claimed_name\<close> null.
\<close>

theorem claim_fields_counterexample:
  "filter (\<lambda>p. \<not> ((claimed_by p = None \<longleftrightarrow> claimed_name p = None) \<and>
                    (claimed_name p = None \<longleftrightarrow> claimed_at p = None)))
     (parts (db (run cfg_ex [(no_fault, 9, ClaimPart ''uuu'' ''w'' (Finite 6) no_hint)] example))) =
   [\<lparr> week_id = ''w'', number = 6, claimed_by = Some ''uuu'', claimed_name = None, claimed_at = Some 9 \<rparr>]"
  by code_simp

text \<open>
  Claim C1, amended.  After any sequence of requests, whatever statements fail, every
  part has \<open>claimed_by\<close> null exactly when \<open>claimed_at\<close> is null, and a part whose
  \<open>claimed_by\<close> is null has a null \<open>claimed_name\<close>.
\<close>

theorem claim_fields_stay_consistent:
  assumes "list_all claim_consistent (parts (db s))" and "txn s = None"
  shows "list_all claim_consistent (parts (db (run cfg rs s)))"
  using run_reaches [OF assms(2)] assms(1) by (rule reaches_claim_consistent)

theorem claim_fields_stay_consistent_witness:
  "list_all claim_consistent (parts (db start)) \<and> txn start = None \<and>
   list_all claim_consistent
     (parts (db (run cfg_ex (example_requests @ [(no_fault, 9, ClaimPart ''uuu'' ''w'' (Finite 6) no_hint)]) start)))"
proof -
  have a: "list_all claim_consistent (parts (db start))" and b: "txn start = None"
    by (simp_all add: start_def)
  have c: "list_all claim_consistent
     (parts (db (run cfg_ex (example_requests @ [(no_fault, 9, ClaimPart ''uuu'' ''w'' (Finite 6) no_hint)]) start)))"
    using a b by (rule claim_fields_stay_consistent)
  show ?thesis by (intro conjI a b c)
qed

section \<open>The thirty parts of a week\<close>

text \<open>
  Claim C6.  Starting from a store in which every week has exactly the parts 1 to 30,
  after any sequence of requests, whatever statements fail, every week of the committed
  store has exactly the parts 1 to 30: the week and its parts are committed together,
  so that no week with no or with some parts is ever committed.  No request removes a
  week, and none removes a part or changes the week or the number of a part: the
  rows of both tables are only ever extended at the end, by a new week and its parts.
\<close>

theorem weeks_keep_their_thirty_parts:
  assumes "weeks_complete (db s)" and "txn s = None"
  shows "weeks_complete (db (run cfg rs s))
     \<and> (\<exists>ws. weeks (db (run cfg rs s)) = weeks (db s) @ ws)
     \<and> (\<exists>ps. map (\<lambda>p. (week_id p, number p)) (parts (db (run cfg rs s))) =
               map (\<lambda>p. (week_id p, number p)) (parts (db s)) @ ps)"
proof -
  have r: "reaches (db s) (db (run cfg rs s))"
    using assms(2) by (rule run_reaches)
  show ?thesis
    using reaches_weeks_complete [OF r assms(1)] reaches_weeks_extend [OF r] reaches_parts_extend [OF r]
    by (intro conjI)
qed

theorem weeks_keep_their_thirty_parts_witness:
  "weeks_complete (db start) \<and> txn start = None \<and>
   weeks_complete (db (run cfg_ex (example_requests @ [(only INSERT_PARTS, 8, ResolveWeek ''W2'')]) start)) \<and>
   weeks (db (run cfg_ex (example_requests @ [(only INSERT_PARTS, 8, ResolveWeek ''W2'')]) start)) =
     [\<lparr> id_week = ''w'', week_key = ''W1'' \<rparr>]"
proof -
  have a: "weeks_complete (db start)" and b: "txn start = None"
    by (simp_all add: start_def weeks_complete_def)
  have c: "weeks (db (run cfg_ex (example_requests @ [(only INSERT_PARTS, 8, ResolveWeek ''W2'')]) start)) =
     [\<lparr> id_week = ''w'', week_key = ''W1'' \<rparr>]"
    by code_simp
  have d: "weeks_complete (db (run cfg_ex (example_requests @ [(only INSERT_PARTS, 8, ResolveWeek ''W2'')]) start))"
    using weeks_keep_their_thirty_parts [OF a b] by (rule conjunct1)
  show ?thesis by (intro conjI a b c d)
qed

section \<open>Events and commits\<close>

lemma claimPart_trace:
  "wp (claimPart fails cfg now uid w n pr)
     (\<lambda>r s'. (status r = 200 \<and> (\<exists>p. json r = PartBody p \<and> trace s' = trace s @ [Committed, Emitted w (PartUpdate p)]))
            \<or> (status r \<noteq> 200 \<and> (\<exists>m. json r = Error m) \<and> trace s' = trace s))
     (\<lambda>e s'. False) s"
  unfolding claimPart_def fn_defs Let_def
  by (simp add: wp_simps split: list.split option.split)

lemma releasePart_trace:
  "wp (releasePart fails uid w n)
     (\<lambda>r s'. (status r = 200 \<and> (\<exists>p. json r = PartBody p \<and> trace s' = trace s @ [Committed, Emitted w (PartUpdate p)]))
            \<or> (status r \<noteq> 200 \<and> (\<exists>m. json r = Error m) \<and> trace s' = trace s))
     (\<lambda>e s'. False) s"
  unfolding releasePart_def fn_defs Let_def
  by (simp add: wp_simps split: list.split option.split)

lemma resetWeek_trace:
  "wp (resetWeek fails cfg uid k pr)
     (\<lambda>r s'. (status r = 200 \<and> (\<exists>i ps. json r = ResetBody i ps \<and> trace s' = trace s @ [Committed, Emitted i (WeekReset i ps)]))
            \<or> (status r \<noteq> 200 \<and> (\<exists>m. json r = Error m) \<and> (trace s' = trace s \<or> trace s' = trace s @ [Committed])))
     (\<lambda>e s'. False) s"
proof (cases "k = []")
  case True
  then show ?thesis by (simp add: resetWeek_def wp_simps)
next
  case False
  then show ?thesis
    unfolding resetWeek_def
    apply (simp only: if_False wp_tryCatch wp_andThen)
    apply (rule wp_cut [where R = "\<lambda>s'. trace s' = trace s"])
      apply (simp add: getUserById_def wp_simps split: list.split)
     apply (simp only: wp_andThen)
     apply (rule wp_cut [where R = "\<lambda>s'. trace s' = trace s"])
       apply (simp add: updateUserProfile_def getUserById_def Let_def wp_simps split: list.split)
      apply (simp add: getWeek_def ensureWeek_def fetchParts_def wp_simps fst_insert_week
              split: list.split option.split)
     apply (simp add: wp_simps)
    apply (simp add: wp_simps)
    done
qed

text \<open>
  Claim C8.  Whatever statements fail, each of the three mutating handlers answers, and
  either the answer is a success and the handler has made exactly one commit followed by
  exactly one event, the one that carries the answer; or the answer is an error and the
  handler has emitted no event.  (A reset may answer with an error after its commit, when
  reading the fresh parts fails: it has then emitted nothing.)
\<close>

theorem events_only_after_commit:
  "(\<exists>r s'. claimPart fails cfg now uid w n pr s = (Ok r, s') \<and>
       ((status r = 200 \<and> (\<exists>p. json r = PartBody p \<and> trace s' = trace s @ [Committed, Emitted w (PartUpdate p)]))
        \<or> (status r \<noteq> 200 \<and> (\<exists>m. json r = Error m) \<and> trace s' = trace s)))
   \<and> (\<exists>r s'. releasePart fails uid w n s = (Ok r, s') \<and>
       ((status r = 200 \<and> (\<exists>p. json r = PartBody p \<and> trace s' = trace s @ [Committed, Emitted w (PartUpdate p)]))
        \<or> (status r \<noteq> 200 \<and> (\<exists>m. json r = Error m) \<and> trace s' = trace s)))
   \<and> (\<exists>r s'. resetWeek fails cfg uid k pr s = (Ok r, s') \<and>
       ((status r = 200 \<and> (\<exists>i ps. json r = ResetBody i ps \<and> trace s' = trace s @ [Committed, Emitted i (WeekReset i ps)]))
        \<or> (status r \<noteq> 200 \<and> (\<exists>m. json r = Error m) \<and> (trace s' = trace s \<or> trace s' = trace s @ [Committed]))))"
  by (intro conjI wp_result claimPart_trace releasePart_trace resetWeek_trace)

theorem events_only_after_commit_witness:
  "(\<exists>s'. claimPart (only COMMIT) cfg_ex 9 ''u'' ''w'' (Finite 6) no_hint example =
        (Ok \<lparr> status = 500, json = Error ''CLAIM_FAILED'' \<rparr>, s') \<and> trace s' = trace example)
   \<and> (\<exists>s'. resetWeek (only SELECT_PARTS) cfg_ex ''uu'' ''W1'' no_hint example =
        (Ok \<lparr> status = 500, json = Error ''RESET_FAILED'' \<rparr>, s') \<and> trace s' = trace example @ [Committed])"
proof -
  have a: "fst (claimPart (only COMMIT) cfg_ex 9 ''u'' ''w'' (Finite 6) no_hint example) =
      Ok \<lparr> status = 500, json = Error ''CLAIM_FAILED'' \<rparr>"
    by code_simp
  have b: "fst (resetWeek (only SELECT_PARTS) cfg_ex ''uu'' ''W1'' no_hint example) =
      Ok \<lparr> status = 500, json = Error ''RESET_FAILED'' \<rparr>"
    by code_simp
  have c: "trace (snd (resetWeek (only SELECT_PARTS) cfg_ex ''uu'' ''W1'' no_hint example)) \<noteq> trace example"
    by code_simp
  from events_only_after_commit [where fails = "only COMMIT" and cfg = cfg_ex and now = 9 and uid = "''u''"
      and w = "''w''" and n = "Finite 6" and pr = no_hint and s = example]
  obtain r s' where "claimPart (only COMMIT) cfg_ex 9 ''u'' ''w'' (Finite 6) no_hint example = (Ok r, s')"
    and "(status r = 200 \<and> (\<exists>p. json r = PartBody p \<and> trace s' = trace example @ [Committed, Emitted ''w'' (PartUpdate p)]))
        \<or> (status r \<noteq> 200 \<and> (\<exists>m. json r = Error m) \<and> trace s' = trace example)"
    by blast
  with a have 1: "\<exists>s'. claimPart (only COMMIT) cfg_ex 9 ''u'' ''w'' (Finite 6) no_hint example =
        (Ok \<lparr> status = 500, json = Error ''CLAIM_FAILED'' \<rparr>, s') \<and> trace s' = trace example"
    by auto
  from events_only_after_commit [where fails = "only SELECT_PARTS" and cfg = cfg_ex and uid = "''uu''"
      and k = "''W1''" and pr = no_hint and s = example]
  obtain r s' where "resetWeek (only SELECT_PARTS) cfg_ex ''uu'' ''W1'' no_hint example = (Ok r, s')"
    and "(status r = 200 \<and> (\<exists>i ps. json r = ResetBody i ps \<and> trace s' = trace example @ [Committed, Emitted i (WeekReset i ps)]))
        \<or> (status r \<noteq> 200 \<and> (\<exists>m. json r = Error m) \<and> (trace s' = trace example \<or> trace s' = trace example @ [Committed]))"
    by blast
  with b c have 2: "\<exists>s'. resetWeek (only SELECT_PARTS) cfg_ex ''uu'' ''W1'' no_hint example =
        (Ok \<lparr> status = 500, json = Error ''RESET_FAILED'' \<rparr>, s') \<and> trace s' = trace example @ [Committed]"
    by auto
  from 1 2 show ?thesis by (rule conjI)
qed

section \<open>Releasing a part\<close>

lemma selected_user_id: "select_users_by_id i d = u # us \<Longrightarrow> id_user u = i"
proof -
  assume "select_users_by_id i d = u # us"
  then have "u \<in> set (filter (\<lambda>u. id_user u = i) (users d))"
    by (simp add: select_users_by_id_def)
  then show ?thesis by simp
qed

lemma int4_not_NaN: "int4 n = Some k \<Longrightarrow> \<not> isNaN n"
  by (cases n) (simp_all add: isNaN_def)

lemma releasePart_not_found:
  assumes "w \<noteq> []" "int4 n = Some k" "txn s = None" "select_users_by_id uid (db s) = u # us"
    "select_part w n (db s) = Some []"
  shows "wp (releasePart no_fault uid w n)
     (\<lambda>r s'. r = \<lparr> status = 404, json = Error ''PART_NOT_FOUND'' \<rparr> \<and> db s' = db s \<and> trace s' = trace s)
     (\<lambda>e s'. False) s"
  using assms int4_not_NaN [OF assms(2)]
  by (simp add: releasePart_def getUserById_def wp_simps no_fault_def)

lemma releasePart_not_owner:
  assumes "w \<noteq> []" "int4 n = Some k" "txn s = None" "select_users_by_id uid (db s) = u # us"
    "select_part w n (db s) = Some (row # rows)" "claimed_by row \<noteq> Some uid"
  shows "wp (releasePart no_fault uid w n)
     (\<lambda>r s'. r = \<lparr> status = 403, json = Error ''NOT_OWNER'' \<rparr> \<and> db s' = db s \<and> trace s' = trace s)
     (\<lambda>e s'. False) s"
  using assms selected_user_id [OF assms(4)] int4_not_NaN [OF assms(2)]
  by (simp add: releasePart_def getUserById_def wp_simps no_fault_def)

lemma releasePart_owner:
  assumes "w \<noteq> []" "int4 n = Some k" "txn s = None" "select_users_by_id uid (db s) = u # us"
    "select_part w n (db s) = Some (row # rows)" "claimed_by row = Some uid" "uid \<noteq> []"
  shows "wp (releasePart no_fault uid w n)
     (\<lambda>r s'. r = \<lparr> status = 200, json = PartBody \<lparr> row_number = n, row_claimed_by = None,
                   row_claimed_name = None, row_claimed_is_admin = None \<rparr> \<rparr>
        \<and> parts (db s') = map (\<lambda>p. if week_id p = w \<and> number p = k
                                   then p\<lparr>claimed_by := None, claimed_name := None, claimed_at := None\<rparr>
                                   else p) (parts (db s))
        \<and> users (db s') = users (db s) \<and> weeks (db s') = weeks (db s))
     (\<lambda>e s'. False) s"
  using assms selected_user_id [OF assms(4)] int4_not_NaN [OF assms(2)]
  by (simp add: releasePart_def getUserById_def wp_simps no_fault_def
        broadcastPartUpdate_def update_part_release_def clear_claim_def Let_def)

text \<open>
  Claim C3.  The caller is a stored user, the week id is not empty, the part number is
  an integer that the column \<^verbatim>\<open>number\<close> holds, and no statement fails.  Then: releasing
  a part that does not exist answers \<open>PART_NOT_FOUND\<close> and leaves the store as it was;
  releasing a part whose \<open>claimed_by\<close> is null or is not the caller's id answers
  \<open>NOT_OWNER\<close>, whether or not the caller is an admin, and leaves the store as it was;
  releasing a part whose \<open>claimed_by\<close> is the caller's id succeeds and clears the three
  claim fields of that part and of no other.  (Identifiers are never the empty string.)
\<close>

theorem release_is_for_the_owner:
  assumes "w \<noteq> []" and "int4 n = Some k" and "txn s = None"
    and "select_users_by_id uid (db s) = u # us"
  shows "(select_part w n (db s) = Some [] \<longrightarrow>
            (\<exists>s'. releasePart no_fault uid w n s = (Ok \<lparr> status = 404, json = Error ''PART_NOT_FOUND'' \<rparr>, s')
               \<and> db s' = db s \<and> trace s' = trace s))
       \<and> (\<forall>row rows. select_part w n (db s) = Some (row # rows) \<and> claimed_by row \<noteq> Some uid \<longrightarrow>
            (\<exists>s'. releasePart no_fault uid w n s = (Ok \<lparr> status = 403, json = Error ''NOT_OWNER'' \<rparr>, s')
               \<and> db s' = db s \<and> trace s' = trace s))
       \<and> (\<forall>row rows. select_part w n (db s) = Some (row # rows) \<and> claimed_by row = Some uid \<and> uid \<noteq> [] \<longrightarrow>
            (\<exists>s'. releasePart no_fault uid w n s =
                 (Ok \<lparr> status = 200, json = PartBody \<lparr> row_number = n, row_claimed_by = None,
                        row_claimed_name = None, row_claimed_is_admin = None \<rparr> \<rparr>, s')
               \<and> parts (db s') = map (\<lambda>p. if week_id p = w \<and> number p = k
                                   then p\<lparr>claimed_by := None, claimed_name := None, claimed_at := None\<rparr>
                                   else p) (parts (db s))
               \<and> users (db s') = users (db s) \<and> weeks (db s') = weeks (db s)))"
proof (intro conjI allI impI)
  assume "select_part w n (db s) = Some []"
  with assms show "\<exists>s'. releasePart no_fault uid w n s = (Ok \<lparr> status = 404, json = Error ''PART_NOT_FOUND'' \<rparr>, s')
               \<and> db s' = db s \<and> trace s' = trace s"
    using wp_result [OF releasePart_not_found] by blast
next
  fix row rows
  assume "select_part w n (db s) = Some (row # rows) \<and> claimed_by row \<noteq> Some uid"
  with assms show "\<exists>s'. releasePart no_fault uid w n s = (Ok \<lparr> status = 403, json = Error ''NOT_OWNER'' \<rparr>, s')
               \<and> db s' = db s \<and> trace s' = trace s"
    using wp_result [OF releasePart_not_owner] by blast
next
  fix row rows
  assume "select_part w n (db s) = Some (row # rows) \<and> claimed_by row = Some uid \<and> uid \<noteq> []"
  with assms show "\<exists>s'. releasePart no_fault uid w n s =
                 (Ok \<lparr> status = 200, json = PartBody \<lparr> row_number = n, row_claimed_by = None,
                        row_claimed_name = None, row_claimed_is_admin = None \<rparr> \<rparr>, s')
               \<and> parts (db s') = map (\<lambda>p. if week_id p = w \<and> number p = k
                                   then p\<lparr>claimed_by := None, claimed_name := None, claimed_at := None\<rparr>
                                   else p) (parts (db s))
               \<and> users (db s') = users (db s) \<and> weeks (db s') = weeks (db s)"
    using wp_result [OF releasePart_owner] by blast
qed

theorem release_is_for_the_owner_witness:
  "(\<exists>s'. releasePart no_fault ''uu'' ''w'' (Finite 40) example =
        (Ok \<lparr> status = 404, json = Error ''PART_NOT_FOUND'' \<rparr>, s') \<and> db s' = db example \<and> trace s' = trace example)
   \<and> is_admin (hd (select_users_by_id ''uu'' (db example)))
   \<and> (\<exists>s'. releasePart no_fault ''uu'' ''w'' (Finite 6) example =
        (Ok \<lparr> status = 403, json = Error ''NOT_OWNER'' \<rparr>, s') \<and> db s' = db example \<and> trace s' = trace example)
   \<and> (\<exists>s'. releasePart no_fault ''uu'' ''w'' (Finite 5) example =
        (Ok \<lparr> status = 200, json = PartBody \<lparr> row_number = Finite 5, row_claimed_by = None,
               row_claimed_name = None, row_claimed_is_admin = None \<rparr> \<rparr>, s')
        \<and> parts (db s') = map (free_part ''w'') [1..30])"
proof -
  have u: "select_users_by_id ''uu'' (db example) =
      [\<lparr> id_user = ''uu'', firebase_uid = ''k2'', name = Some ''Admin'', phone = Some ''+222'', is_admin = True \<rparr>]"
    by code_simp
  have i40: "int4 (Finite 40) = Some 40" by simp
  have i6: "int4 (Finite 6) = Some 6" by simp
  have i5: "int4 (Finite 5) = Some 5" by simp
  have p40: "select_part ''w'' (Finite 40) (db example) = Some []"
    by code_simp
  have p6: "select_part ''w'' (Finite 6) (db example) = Some [free_part ''w'' 6]"
    by code_simp
  have p5: "select_part ''w'' (Finite 5) (db example) =
      Some [\<lparr> week_id = ''w'', number = 5, claimed_by = Some ''uu'', claimed_name = Some ''Admin'', claimed_at = Some 7 \<rparr>]"
    by code_simp
  have m: "map (\<lambda>p. if week_id p = ''w'' \<and> number p = 5
                      then p\<lparr>claimed_by := None, claimed_name := None, claimed_at := None\<rparr> else p)
               (parts (db example)) = map (free_part ''w'') [1..30]"
    by code_simp
  have t: "txn example = None" by (rule example_txn)
  have w: "''w'' \<noteq> []" by simp
  have 1: "\<exists>s'. releasePart no_fault ''uu'' ''w'' (Finite 40) example =
        (Ok \<lparr> status = 404, json = Error ''PART_NOT_FOUND'' \<rparr>, s') \<and> db s' = db example \<and> trace s' = trace example"
    using release_is_for_the_owner [OF w i40 t u] p40 by simp
  have 2: "\<exists>s'. releasePart no_fault ''uu'' ''w'' (Finite 6) example =
        (Ok \<lparr> status = 403, json = Error ''NOT_OWNER'' \<rparr>, s') \<and> db s' = db example \<and> trace s' = trace example"
    using release_is_for_the_owner [OF w i6 t u] p6 by (simp add: free_part_def)
  have 3: "\<exists>s'. releasePart no_fault ''uu'' ''w'' (Finite 5) example =
        (Ok \<lparr> status = 200, json = PartBody \<lparr> row_number = Finite 5, row_claimed_by = None,
               row_claimed_name = None, row_claimed_is_admin = None \<rparr> \<rparr>, s')
        \<and> parts (db s') = map (free_part ''w'') [1..30]"
    using release_is_for_the_owner [OF w i5 t u] p5 m by auto
  have 4: "is_admin (hd (select_users_by_id ''uu'' (db example)))"
    by (simp add: u)
  from 1 4 2 3 show ?thesis by (intro conjI)
qed


section \<open>Claiming a part\<close>

text \<open>
  Claim C2, as stated, fails: a claim of a part that is already claimed answers
  \<open>ALREADY_CLAIMED\<close> after it has merged the profile hint of the request into the
  caller's user row, outside the transaction that is rolled back.
\<close>

theorem claim_failure_counterexample:
  "fst (claimPart no_fault cfg_ex 9 ''u'' ''w'' (Finite 5)
          \<lparr> profile_name = Some ''Bob'', profile_phone = None \<rparr> example) =
     Ok \<lparr> status = 409, json = Error ''ALREADY_CLAIMED'' \<rparr>
   \<and> map name (users (db example)) = [Some ''Ann'', Some ''Admin'', None]
   \<and> map name (users (db (snd (claimPart no_fault cfg_ex 9 ''u'' ''w'' (Finite 5)
          \<lparr> profile_name = Some ''Bob'', profile_phone = None \<rparr> example)))) =
     [Some ''Bob'', Some ''Admin'', None]"
  by code_simp

lemma claimPart_already_claimed:
  assumes "w \<noteq> []" "int4 n = Some k" "txn s = None" "select_users_by_id uid (db s) = u # us"
    "select_part w n (db s) = Some (row # rows)" "truthy (claimed_by row)"
  shows "wp (claimPart no_fault cfg now uid w n pr)
     (\<lambda>r s'. r = \<lparr> status = 409, json = Error ''ALREADY_CLAIMED'' \<rparr>
        \<and> parts (db s') = parts (db s) \<and> weeks (db s') = weeks (db s) \<and> trace s' = trace s
        \<and> users (db s') =
            (if truthy (profile_name pr) \<or> truthy (profile_phone pr)
             then map (\<lambda>x. if id_user x = uid
                       then x\<lparr>name := or_else (map_option trim (profile_name pr)) (name u),
                              phone := normalizePhone (or_else (profile_phone pr) (phone u)),
                              is_admin := computeAdminFlag cfg
                                (or_else (map_option trim (profile_name pr)) (name u))
                                (normalizePhone (or_else (profile_phone pr) (phone u))) (is_admin u)\<rparr>
                       else x) (users (db s))
             else users (db s)))
     (\<lambda>e s'. False) s"
  using assms selected_user_id [OF assms(4)] int4_not_NaN [OF assms(2)]
  by (simp add: claimPart_def updateUserProfile_def getUserById_def wp_simps no_fault_def
        Let_def select_users_by_id_def select_part_def update_user_def)

lemma or_else_absorb: "or_else (or_else t (or_else t nm)) None = or_else (or_else t nm) None"
  by (simp add: or_else_def)

lemma claimed_name_cases:
  "or_else (or_else (map_option trim x) nm) None =
     (case x of
        Some v \<Rightarrow> if trim v \<noteq> [] then Some (trim v) else if truthy nm then nm else None
      | None \<Rightarrow> if truthy nm then nm else None)"
  by (cases x) (simp_all add: or_else_def)

lemma claimPart_free:
  assumes "w \<noteq> []" "int4 n = Some k" "txn s = None" "select_users_by_id uid (db s) = u # us"
    "select_part w n (db s) = Some (row # rows)" "claimed_by row = None"
  shows "wp (claimPart no_fault cfg now uid w n pr)
     (\<lambda>r s'.
          r = \<lparr> status = 200, json = PartBody \<lparr> row_number = n, row_claimed_by = Some uid,
                   row_claimed_name = or_else (or_else (map_option trim (profile_name pr)) (name u)) None,
                   row_claimed_is_admin = Some (merged_is_admin cfg pr u) \<rparr> \<rparr>
        \<and> parts (db s') = map (\<lambda>p. if week_id p = w \<and> number p = k
                                   then p\<lparr>claimed_by := Some uid,
                                           claimed_name := or_else (or_else (map_option trim (profile_name pr)) (name u)) None,
                                           claimed_at := Some now\<rparr>
                                   else p) (parts (db s))
        \<and> weeks (db s') = weeks (db s)
        \<and> users (db s') =
            (if truthy (profile_name pr) \<or> truthy (profile_phone pr)
             then map (\<lambda>x. if id_user x = uid
                       then x\<lparr>name := or_else (map_option trim (profile_name pr)) (name u),
                              phone := normalizePhone (or_else (profile_phone pr) (phone u)),
                              is_admin := computeAdminFlag cfg
                                (or_else (map_option trim (profile_name pr)) (name u))
                                (normalizePhone (or_else (profile_phone pr) (phone u))) (is_admin u)\<rparr>
                       else x) (users (db s))
             else users (db s)))
     (\<lambda>e s'. False) s"
  using assms selected_user_id [OF assms(4)] int4_not_NaN [OF assms(2)]
  by (simp add: claimPart_def updateUserProfile_def getUserById_def wp_simps no_fault_def
        Let_def select_users_by_id_def select_part_def update_user_def update_part_claim_def
        set_claim_def broadcastPartUpdate_def or_else_absorb merged_is_admin_def)


text \<open>
  Claim C2, amended.  The caller is a stored user, the week id is not empty, the part
  number is an integer that the column \<^verbatim>\<open>number\<close> holds, the part exists, and no statement
  fails.  A claim of a part whose \<open>claimed_by\<close> is set answers \<open>ALREADY_CLAIMED\<close>, emits
  nothing and leaves every part and every week as it was.  A claim of a part whose
  \<open>claimed_by\<close> is null succeeds and sets, on that part and on no other, \<open>claimed_by\<close> to
  the caller's id, \<open>claimed_at\<close> to the current time, and \<open>claimed_name\<close> to the trimmed
  name override when that is not blank, otherwise to the caller's stored name (null when
  there is none).  In both cases the table of the users is exactly this: when the request
  carries a profile hint (a name or a phone that is not empty), the rows with the caller's
  id get the merged name, phone and admin flag, and every other row is as it was; when the
  request carries no hint, the table is as it was.
\<close>

theorem claim_of_a_part:
  assumes "w \<noteq> []" and "int4 n = Some k" and "txn s = None"
    and "select_users_by_id uid (db s) = u # us"
    and "select_part w n (db s) = Some (row # rows)"
  shows "(truthy (claimed_by row) \<longrightarrow>
            (\<exists>s'. claimPart no_fault cfg now uid w n pr s =
                 (Ok \<lparr> status = 409, json = Error ''ALREADY_CLAIMED'' \<rparr>, s')
               \<and> parts (db s') = parts (db s) \<and> weeks (db s') = weeks (db s) \<and> trace s' = trace s
               \<and> users (db s') =
                   (if truthy (profile_name pr) \<or> truthy (profile_phone pr)
                    then map (\<lambda>x. if id_user x = uid
                       then x\<lparr>name := or_else (map_option trim (profile_name pr)) (name u),
                              phone := normalizePhone (or_else (profile_phone pr) (phone u)),
                              is_admin := computeAdminFlag cfg
                                (or_else (map_option trim (profile_name pr)) (name u))
                                (normalizePhone (or_else (profile_phone pr) (phone u))) (is_admin u)\<rparr>
                       else x) (users (db s))
                    else users (db s))))
       \<and> (claimed_by row = None \<longrightarrow>
            (\<exists>s' claimedName.
                 claimedName = (case profile_name pr of
                     Some v \<Rightarrow> if trim v \<noteq> [] then Some (trim v)
                               else if truthy (name u) then name u else None
                   | None \<Rightarrow> if truthy (name u) then name u else None)
               \<and> claimPart no_fault cfg now uid w n pr s =
                 (Ok \<lparr> status = 200, json = PartBody \<lparr> row_number = n, row_claimed_by = Some uid,
                        row_claimed_name = claimedName,
                        row_claimed_is_admin = Some (merged_is_admin cfg pr u) \<rparr> \<rparr>, s')
               \<and> parts (db s') = map (\<lambda>p. if week_id p = w \<and> number p = k
                                   then p\<lparr>claimed_by := Some uid, claimed_name := claimedName,
                                           claimed_at := Some now\<rparr>
                                   else p) (parts (db s))
               \<and> weeks (db s') = weeks (db s)
               \<and> users (db s') =
                   (if truthy (profile_name pr) \<or> truthy (profile_phone pr)
                    then map (\<lambda>x. if id_user x = uid
                       then x\<lparr>name := or_else (map_option trim (profile_name pr)) (name u),
                              phone := normalizePhone (or_else (profile_phone pr) (phone u)),
                              is_admin := computeAdminFlag cfg
                                (or_else (map_option trim (profile_name pr)) (name u))
                                (normalizePhone (or_else (profile_phone pr) (phone u))) (is_admin u)\<rparr>
                       else x) (users (db s))
                    else users (db s))))"
proof (intro conjI impI)
  assume "truthy (claimed_by row)"
  with assms show "\<exists>s'. claimPart no_fault cfg now uid w n pr s =
                 (Ok \<lparr> status = 409, json = Error ''ALREADY_CLAIMED'' \<rparr>, s')
               \<and> parts (db s') = parts (db s) \<and> weeks (db s') = weeks (db s) \<and> trace s' = trace s
               \<and> users (db s') =
                   (if truthy (profile_name pr) \<or> truthy (profile_phone pr)
                    then map (\<lambda>x. if id_user x = uid
                       then x\<lparr>name := or_else (map_option trim (profile_name pr)) (name u),
                              phone := normalizePhone (or_else (profile_phone pr) (phone u)),
                              is_admin := computeAdminFlag cfg
                                (or_else (map_option trim (profile_name pr)) (name u))
                                (normalizePhone (or_else (profile_phone pr) (phone u))) (is_admin u)\<rparr>
                       else x) (users (db s))
                    else users (db s))"
    using wp_result [OF claimPart_already_claimed] by blast
next
  assume "claimed_by row = None"
  with assms have "\<exists>r s'. claimPart no_fault cfg now uid w n pr s = (Ok r, s') \<and> (
          r = \<lparr> status = 200, json = PartBody \<lparr> row_number = n, row_claimed_by = Some uid,
                   row_claimed_name = or_else (or_else (map_option trim (profile_name pr)) (name u)) None,
                   row_claimed_is_admin = Some (merged_is_admin cfg pr u) \<rparr> \<rparr>
        \<and> parts (db s') = map (\<lambda>p. if week_id p = w \<and> number p = k
                                   then p\<lparr>claimed_by := Some uid,
                                           claimed_name := or_else (or_else (map_option trim (profile_name pr)) (name u)) None,
                                           claimed_at := Some now\<rparr>
                                   else p) (parts (db s))
        \<and> weeks (db s') = weeks (db s)
        \<and> users (db s') =
                   (if truthy (profile_name pr) \<or> truthy (profile_phone pr)
                    then map (\<lambda>x. if id_user x = uid
                       then x\<lparr>name := or_else (map_option trim (profile_name pr)) (name u),
                              phone := normalizePhone (or_else (profile_phone pr) (phone u)),
                              is_admin := computeAdminFlag cfg
                                (or_else (map_option trim (profile_name pr)) (name u))
                                (normalizePhone (or_else (profile_phone pr) (phone u))) (is_admin u)\<rparr>
                       else x) (users (db s))
                    else users (db s)))"
    by (intro wp_result claimPart_free)
  then show "\<exists>s' claimedName.
                 claimedName = (case profile_name pr of
                     Some v \<Rightarrow> if trim v \<noteq> [] then Some (trim v)
                               else if truthy (name u) then name u else None
                   | None \<Rightarrow> if truthy (name u) then name u else None)
               \<and> claimPart no_fault cfg now uid w n pr s =
                 (Ok \<lparr> status = 200, json = PartBody \<lparr> row_number = n, row_claimed_by = Some uid,
                        row_claimed_name = claimedName,
                        row_claimed_is_admin = Some (merged_is_admin cfg pr u) \<rparr> \<rparr>, s')
               \<and> parts (db s') = map (\<lambda>p. if week_id p = w \<and> number p = k
                                   then p\<lparr>claimed_by := Some uid, claimed_name := claimedName,
                                           claimed_at := Some now\<rparr>
                                   else p) (parts (db s))
               \<and> weeks (db s') = weeks (db s)
               \<and> users (db s') =
                   (if truthy (profile_name pr) \<or> truthy (profile_phone pr)
                    then map (\<lambda>x. if id_user x = uid
                       then x\<lparr>name := or_else (map_option trim (profile_name pr)) (name u),
                              phone := normalizePhone (or_else (profile_phone pr) (phone u)),
                              is_admin := computeAdminFlag cfg
                                (or_else (map_option trim (profile_name pr)) (name u))
                                (normalizePhone (or_else (profile_phone pr) (phone u))) (is_admin u)\<rparr>
                       else x) (users (db s))
                    else users (db s))"
    unfolding claimed_name_cases by blast
qed

theorem claim_of_a_part_witness:
  "(\<exists>s'. claimPart no_fault cfg_ex 9 ''u'' ''w'' (Finite 5)
            \<lparr> profile_name = Some ''Bob'', profile_phone = None \<rparr> example =
          (Ok \<lparr> status = 409, json = Error ''ALREADY_CLAIMED'' \<rparr>, s')
        \<and> parts (db s') = parts (db example) \<and> trace s' = trace example
        \<and> users (db s') =
            [\<lparr> id_user = ''u'', firebase_uid = ''k1'', name = Some ''Bob'', phone = Some ''+111'', is_admin = False \<rparr>,
             \<lparr> id_user = ''uu'', firebase_uid = ''k2'', name = Some ''Admin'', phone = Some ''+222'', is_admin = True \<rparr>,
             \<lparr> id_user = ''uuu'', firebase_uid = ''k3'', name = None, phone = Some ''+333'', is_admin = False \<rparr>])
   \<and> (\<exists>s'. claimPart no_fault cfg_ex 9 ''uuu'' ''w'' (Finite 6)
            \<lparr> profile_name = Some ''  Zed '', profile_phone = None \<rparr> example =
          (Ok \<lparr> status = 200, json = PartBody \<lparr> row_number = Finite 6, row_claimed_by = Some ''uuu'',
                 row_claimed_name = Some ''Zed'', row_claimed_is_admin = Some False \<rparr> \<rparr>, s'))"
proof -
  have u1: "select_users_by_id ''u'' (db example) =
      [\<lparr> id_user = ''u'', firebase_uid = ''k1'', name = Some ''Ann'', phone = Some ''+111'', is_admin = False \<rparr>]"
    by code_simp
  have u3: "select_users_by_id ''uuu'' (db example) =
      [\<lparr> id_user = ''uuu'', firebase_uid = ''k3'', name = None, phone = Some ''+333'', is_admin = False \<rparr>]"
    by code_simp
  have p5: "select_part ''w'' (Finite 5) (db example) =
      Some [\<lparr> week_id = ''w'', number = 5, claimed_by = Some ''uu'', claimed_name = Some ''Admin'', claimed_at = Some 7 \<rparr>]"
    by code_simp
  have p6: "select_part ''w'' (Finite 6) (db example) = Some [free_part ''w'' 6]"
    by code_simp
  have z: "trim ''  Zed '' = ''Zed''"
    by code_simp
  have a3: "merged_is_admin cfg_ex \<lparr> profile_name = Some ''  Zed '', profile_phone = None \<rparr>
      \<lparr> id_user = ''uuu'', firebase_uid = ''k3'', name = None, phone = Some ''+333'', is_admin = False \<rparr> = False"
    by code_simp
  have t: "txn example = None" by (rule example_txn)
  have w: "''w'' \<noteq> []" by simp
  have n5: "int4 (Finite 5) = Some 5" and n6: "int4 (Finite 6) = Some 6" by simp_all
  have m1: "(if truthy (profile_name (\<lparr> profile_name = Some ''Bob'', profile_phone = None \<rparr>)) \<or> truthy (profile_phone (\<lparr> profile_name = Some ''Bob'', profile_phone = None \<rparr>))
                    then map (\<lambda>x. if id_user x = ''u''
                       then x\<lparr>name := or_else (map_option trim (profile_name (\<lparr> profile_name = Some ''Bob'', profile_phone = None \<rparr>))) (name (\<lparr> id_user = ''u'', firebase_uid = ''k1'', name = Some ''Ann'', phone = Some ''+111'', is_admin = False \<rparr>)),
                              phone := normalizePhone (or_else (profile_phone (\<lparr> profile_name = Some ''Bob'', profile_phone = None \<rparr>)) (phone (\<lparr> id_user = ''u'', firebase_uid = ''k1'', name = Some ''Ann'', phone = Some ''+111'', is_admin = False \<rparr>))),
                              is_admin := computeAdminFlag cfg_ex
                                (or_else (map_option trim (profile_name (\<lparr> profile_name = Some ''Bob'', profile_phone = None \<rparr>))) (name (\<lparr> id_user = ''u'', firebase_uid = ''k1'', name = Some ''Ann'', phone = Some ''+111'', is_admin = False \<rparr>)))
                                (normalizePhone (or_else (profile_phone (\<lparr> profile_name = Some ''Bob'', profile_phone = None \<rparr>)) (phone (\<lparr> id_user = ''u'', firebase_uid = ''k1'', name = Some ''Ann'', phone = Some ''+111'', is_admin = False \<rparr>)))) (is_admin (\<lparr> id_user = ''u'', firebase_uid = ''k1'', name = Some ''Ann'', phone = Some ''+111'', is_admin = False \<rparr>))\<rparr>
                       else x) (users (db example))
                    else users (db example)) =
            [\<lparr> id_user = ''u'', firebase_uid = ''k1'', name = Some ''Bob'', phone = Some ''+111'', is_admin = False \<rparr>,
             \<lparr> id_user = ''uu'', firebase_uid = ''k2'', name = Some ''Admin'', phone = Some ''+222'', is_admin = True \<rparr>,
             \<lparr> id_user = ''uuu'', firebase_uid = ''k3'', name = None, phone = Some ''+333'', is_admin = False \<rparr>]"
    by code_simp
  have c5: "truthy (claimed_by \<lparr> week_id = ''w'', number = 5, claimed_by = Some ''uu'',
      claimed_name = Some ''Admin'', claimed_at = Some 7 \<rparr>)"
    by simp
  have "\<exists>s'. claimPart no_fault cfg_ex 9 ''u'' ''w'' (Finite 5) \<lparr> profile_name = Some ''Bob'', profile_phone = None \<rparr> example =
          (Ok \<lparr> status = 409, json = Error ''ALREADY_CLAIMED'' \<rparr>, s')
        \<and> parts (db s') = parts (db example) \<and> weeks (db s') = weeks (db example)
        \<and> trace s' = trace example
        \<and> users (db s') = (if truthy (profile_name (\<lparr> profile_name = Some ''Bob'', profile_phone = None \<rparr>)) \<or> truthy (profile_phone (\<lparr> profile_name = Some ''Bob'', profile_phone = None \<rparr>))
                    then map (\<lambda>x. if id_user x = ''u''
                       then x\<lparr>name := or_else (map_option trim (profile_name (\<lparr> profile_name = Some ''Bob'', profile_phone = None \<rparr>))) (name (\<lparr> id_user = ''u'', firebase_uid = ''k1'', name = Some ''Ann'', phone = Some ''+111'', is_admin = False \<rparr>)),
                              phone := normalizePhone (or_else (profile_phone (\<lparr> profile_name = Some ''Bob'', profile_phone = None \<rparr>)) (phone (\<lparr> id_user = ''u'', firebase_uid = ''k1'', name = Some ''Ann'', phone = Some ''+111'', is_admin = False \<rparr>))),
                              is_admin := computeAdminFlag cfg_ex
                                (or_else (map_option trim (profile_name (\<lparr> profile_name = Some ''Bob'', profile_phone = None \<rparr>))) (name (\<lparr> id_user = ''u'', firebase_uid = ''k1'', name = Some ''Ann'', phone = Some ''+111'', is_admin = False \<rparr>)))
                                (normalizePhone (or_else (profile_phone (\<lparr> profile_name = Some ''Bob'', profile_phone = None \<rparr>)) (phone (\<lparr> id_user = ''u'', firebase_uid = ''k1'', name = Some ''Ann'', phone = Some ''+111'', is_admin = False \<rparr>)))) (is_admin (\<lparr> id_user = ''u'', firebase_uid = ''k1'', name = Some ''Ann'', phone = Some ''+111'', is_admin = False \<rparr>))\<rparr>
                       else x) (users (db example))
                    else users (db example))"
    using claim_of_a_part [OF w n5 t u1 p5, of cfg_ex 9 "\<lparr> profile_name = Some ''Bob'', profile_phone = None \<rparr>"] c5
    by blast
  then have 1: "\<exists>s'. claimPart no_fault cfg_ex 9 ''u'' ''w'' (Finite 5)
            \<lparr> profile_name = Some ''Bob'', profile_phone = None \<rparr> example =
          (Ok \<lparr> status = 409, json = Error ''ALREADY_CLAIMED'' \<rparr>, s')
        \<and> parts (db s') = parts (db example) \<and> trace s' = trace example
        \<and> users (db s') =
            [\<lparr> id_user = ''u'', firebase_uid = ''k1'', name = Some ''Bob'', phone = Some ''+111'', is_admin = False \<rparr>,
             \<lparr> id_user = ''uu'', firebase_uid = ''k2'', name = Some ''Admin'', phone = Some ''+222'', is_admin = True \<rparr>,
             \<lparr> id_user = ''uuu'', firebase_uid = ''k3'', name = None, phone = Some ''+333'', is_admin = False \<rparr>]"
    unfolding m1 by blast
  have 2: "\<exists>s'. claimPart no_fault cfg_ex 9 ''uuu'' ''w'' (Finite 6)
            \<lparr> profile_name = Some ''  Zed '', profile_phone = None \<rparr> example =
          (Ok \<lparr> status = 200, json = PartBody \<lparr> row_number = Finite 6, row_claimed_by = Some ''uuu'',
                 row_claimed_name = Some ''Zed'', row_claimed_is_admin = Some False \<rparr> \<rparr>, s')"
    using claim_of_a_part [OF w n6 t u3 p6, of cfg_ex 9 "\<lparr> profile_name = Some ''  Zed '', profile_phone = None \<rparr>"] z a3
    by (auto simp: free_part_def)
  from 1 2 show ?thesis by (rule conjI)
qed


section \<open>Snapshots of a week\<close>

lemma join_user_unclaimed:
  "claimed_by p = None \<Longrightarrow>
   join_user d p = [\<lparr> row_number = Finite (of_int (number p)), row_claimed_by = None,
                     row_claimed_name = claimed_name p, row_claimed_is_admin = None \<rparr>]"
  by (simp add: join_user_def)

lemma join_user_free_part: "join_user d (free_part w i) = [free_row i]"
  by (simp add: join_user_def free_part_def free_row_def)

lemma concat_join_free_parts: "concat (map (join_user d) (map (free_part w) ns)) = map free_row ns"
  by (induction ns) (simp_all add: join_user_free_part)

lemma sort_free_parts: "sort_key number (map (free_part w) [i..j]) = map (free_part w) [i..j]"
proof (rule sort_key_id_if_sorted)
  have "map number (map (free_part w) [i..j]) = [i..j]"
    by (simp add: map_number_free_parts)
  then show "sorted (map number (map (free_part w) [i..j]))"
    by simp
qed

lemma snapshot_of_new_week:
  assumes "parts d = ps @ map (free_part w) [1..30]" and "\<forall>p \<in> set ps. week_id p \<noteq> w"
  shows "select_parts_of_week w d = map free_row [1..30]"
proof -
  have "filter (\<lambda>p. week_id p = w) ps = []"
    using assms(2) by (simp add: filter_empty_conv)
  then have "filter (\<lambda>p. week_id p = w) (parts d) = map (free_part w) [1..30]"
    using assms(1) by (simp add: filter_free_parts_same)
  then show ?thesis
    by (simp only: select_parts_of_week_def sort_free_parts concat_join_free_parts)
qed

lemma reset_part_cleared:
  assumes "p \<in> set (map (\<lambda>p. if week_id p = w
             then p\<lparr>claimed_by := None, claimed_name := None, claimed_at := None\<rparr> else p) ps)"
    and "week_id p = w"
  shows "claimed_by p = None \<and> claimed_name p = None"
proof -
  from assms(1) obtain q where q: "p = (if week_id q = w
             then q\<lparr>claimed_by := None, claimed_name := None, claimed_at := None\<rparr> else q)"
    by (auto simp only: set_map)
  show ?thesis
  proof (cases "week_id q = w")
    case True
    with q show ?thesis by simp
  next
    case False
    with q have "p = q" by simp
    with False assms(2) show ?thesis by simp
  qed
qed

lemma rows_of_unclaimed:
  "list_all (\<lambda>p. claimed_by p = None \<and> claimed_name p = None) xs \<Longrightarrow>
   concat (map (join_user d) xs) =
     map (\<lambda>p. \<lparr> row_number = Finite (of_int (number p)), row_claimed_by = None,
                 row_claimed_name = None, row_claimed_is_admin = None \<rparr>) xs"
  by (induction xs) (simp_all add: join_user_unclaimed)

lemma length_filter_update:
  "(\<And>p. P (f p) = P p) \<Longrightarrow> length (filter P (map f ps)) = length (filter P ps)"
  by (induction ps) simp_all

lemma length_filter_reset:
  "length (filter (\<lambda>p. week_id p = w) (map (\<lambda>p. if week_id p = w
             then p\<lparr>claimed_by := None, claimed_name := None, claimed_at := None\<rparr> else p) ps)) =
   length (filter (\<lambda>p. week_id p = w) ps)"
  by (rule length_filter_update) simp

lemma snapshot_after_reset:
  assumes "parts d' = map (\<lambda>p. if week_id p = w
             then p\<lparr>claimed_by := None, claimed_name := None, claimed_at := None\<rparr> else p) ps"
  shows "list_all (\<lambda>r. row_claimed_by r = None \<and> row_claimed_name r = None \<and> row_claimed_is_admin r = None)
           (select_parts_of_week w d')
     \<and> length (select_parts_of_week w d') = length (filter (\<lambda>p. week_id p = w) ps)"
proof -
  define xs where "xs = sort_key number (filter (\<lambda>p. week_id p = w) (parts d'))"
  have "claimed_by p = None \<and> claimed_name p = None" if "p \<in> set xs" for p
  proof -
    from that have "p \<in> set (parts d')" and "week_id p = w" by (simp_all add: xs_def)
    then show ?thesis unfolding assms by (rule reset_part_cleared)
  qed
  then have "list_all (\<lambda>p. claimed_by p = None \<and> claimed_name p = None) xs"
    by (simp only: list_all_iff) blast
  then have eq: "select_parts_of_week w d' =
      map (\<lambda>p. \<lparr> row_number = Finite (of_int (number p)), row_claimed_by = None,
                  row_claimed_name = None, row_claimed_is_admin = None \<rparr>) xs"
    unfolding select_parts_of_week_def xs_def [symmetric] by (rule rows_of_unclaimed)
  have "length xs = length (filter (\<lambda>p. week_id p = w) ps)"
    unfolding xs_def assms by (simp only: length_sort length_filter_reset)
  then show ?thesis
    unfolding eq by (simp add: list_all_iff)
qed

section \<open>Resetting a week\<close>

text \<open>
  Claim C4, as stated, fails: a caller whose stored \<open>is_admin\<close> is false, and whose
  request carries a profile hint with a phone of the configured admin list, is promoted
  by the merge of the hint and resets the week.
\<close>

theorem reset_counterexample:
  "map is_admin (select_users_by_id ''u'' (db example)) = [False]
   \<and> (case fst (resetWeek no_fault cfg_ex ''u'' ''W1''
                  \<lparr> profile_name = None, profile_phone = Some ''+971523783612'' \<rparr> example) of
        Ok r \<Rightarrow> status r = 200 \<and> json r = ResetBody ''w'' (map free_row [1..30])
      | Thrown e \<Rightarrow> False)
   \<and> parts (db (snd (resetWeek no_fault cfg_ex ''u'' ''W1''
                  \<lparr> profile_name = None, profile_phone = Some ''+971523783612'' \<rparr> example))) =
       map (free_part ''w'') [1..30]"
  by code_simp

lemma resetWeek_not_admin:
  assumes "k \<noteq> []" "txn s = None" "select_users_by_id uid (db s) = u # us"
    "\<not> merged_is_admin cfg pr u"
  shows "wp (resetWeek no_fault cfg uid k pr)
     (\<lambda>r s'. r = \<lparr> status = 403, json = Error ''NOT_ADMIN'' \<rparr>
        \<and> parts (db s') = parts (db s) \<and> weeks (db s') = weeks (db s) \<and> trace s' = trace s
        \<and> users (db s') =
                   (if truthy (profile_name pr) \<or> truthy (profile_phone pr)
                    then map (\<lambda>x. if id_user x = uid
                       then x\<lparr>name := or_else (map_option trim (profile_name pr)) (name u),
                              phone := normalizePhone (or_else (profile_phone pr) (phone u)),
                              is_admin := computeAdminFlag cfg
                                (or_else (map_option trim (profile_name pr)) (name u))
                                (normalizePhone (or_else (profile_phone pr) (phone u))) (is_admin u)\<rparr>
                       else x) (users (db s))
                    else users (db s)))
     (\<lambda>e s'. False) s"
proof (cases "truthy (profile_name pr) \<or> truthy (profile_phone pr)")
  case True
  with assms(4) have "computeAdminFlag cfg (or_else (map_option trim (profile_name pr)) (name u))
             (normalizePhone (or_else (profile_phone pr) (phone u))) (is_admin u) = False"
    by (simp add: merged_is_admin_def)
  with True assms(1-3) selected_user_id [OF assms(3)] show ?thesis
    by (simp add: resetWeek_def updateUserProfile_def getUserById_def wp_simps no_fault_def
          Let_def select_users_by_id_def update_user_def)
next
  case False
  with assms(4) have "is_admin u = False"
    by (simp add: merged_is_admin_def)
  with False assms(1-3) show ?thesis
    by (simp add: resetWeek_def getUserById_def wp_simps no_fault_def)
qed

lemma resetWeek_admin:
  assumes "k \<noteq> []" "txn s = None" "select_users_by_id uid (db s) = u # us"
    "select_weeks k (db s) = wk # wks" "merged_is_admin cfg pr u"
  shows "wp (resetWeek no_fault cfg uid k pr)
     (\<lambda>r s'. r = \<lparr> status = 200, json = ResetBody (id_week wk) (select_parts_of_week (id_week wk) (db s')) \<rparr>
        \<and> parts (db s') = map (\<lambda>p. if week_id p = id_week wk
                     then p\<lparr>claimed_by := None, claimed_name := None, claimed_at := None\<rparr> else p)
                     (parts (db s))
        \<and> weeks (db s') = weeks (db s)
        \<and> trace s' = trace s @ [Committed, Emitted (id_week wk)
              (WeekReset (id_week wk) (select_parts_of_week (id_week wk) (db s')))]
        \<and> users (db s') =
                   (if truthy (profile_name pr) \<or> truthy (profile_phone pr)
                    then map (\<lambda>x. if id_user x = uid
                       then x\<lparr>name := or_else (map_option trim (profile_name pr)) (name u),
                              phone := normalizePhone (or_else (profile_phone pr) (phone u)),
                              is_admin := computeAdminFlag cfg
                                (or_else (map_option trim (profile_name pr)) (name u))
                                (normalizePhone (or_else (profile_phone pr) (phone u))) (is_admin u)\<rparr>
                       else x) (users (db s))
                    else users (db s)))
     (\<lambda>e s'. False) s"
proof (cases "truthy (profile_name pr) \<or> truthy (profile_phone pr)")
  case True
  with assms(5) have "computeAdminFlag cfg (or_else (map_option trim (profile_name pr)) (name u))
             (normalizePhone (or_else (profile_phone pr) (phone u))) (is_admin u) = True"
    by (simp add: merged_is_admin_def)
  with True assms(1-4) selected_user_id [OF assms(3)] show ?thesis
    by (simp add: resetWeek_def updateUserProfile_def getUserById_def getWeek_def fetchParts_def
          wp_simps no_fault_def Let_def select_users_by_id_def select_weeks_def update_user_def
          update_parts_reset_def)
next
  case False
  with assms(5) have "is_admin u = True"
    by (simp add: merged_is_admin_def)
  with False assms(1-4) show ?thesis
    by (simp add: resetWeek_def getUserById_def getWeek_def fetchParts_def
          wp_simps no_fault_def select_weeks_def update_parts_reset_def)
qed


text \<open>
  Claim C4, amended.  The caller is a stored user, the week key is not empty, and no
  statement fails.  The admin flag that decides is the caller's flag once the profile
  hint of the request is merged into the caller's row: the stored flag when the request
  carries no hint (no name and no phone that is not empty), otherwise
  \<open>computeAdminFlag\<close> of the merged name, the merged phone and the stored flag.  A
  reset by a caller for whom this flag is false answers \<open>NOT_ADMIN\<close>, emits nothing and
  leaves every part and every week as it was.  A reset of a week that exists, by a caller
  for whom this flag is true, clears the three claim fields of every part of the week,
  leaves the parts of the other weeks as they were, and returns the snapshot of the week
  as stored afterwards: one row for each part of the week, none of them claimed.  In
  both cases the rows of the users with the caller's id get the merged name, phone and
  admin flag when the request carries a hint, and no other row of the users changes.  A
  caller whose stored flag is true is an admin after the merge, and a caller whose stored
  flag is false and who sends no hint is not.
\<close>

theorem reset_needs_an_admin:
  assumes "k \<noteq> []" and "txn s = None" and "select_users_by_id uid (db s) = u # us"
  shows "(\<not> merged_is_admin cfg pr u \<longrightarrow>
            (\<exists>s'. resetWeek no_fault cfg uid k pr s = (Ok \<lparr> status = 403, json = Error ''NOT_ADMIN'' \<rparr>, s')
               \<and> parts (db s') = parts (db s) \<and> weeks (db s') = weeks (db s) \<and> trace s' = trace s
               \<and> users (db s') =
                   (if truthy (profile_name pr) \<or> truthy (profile_phone pr)
                    then map (\<lambda>x. if id_user x = uid
                       then x\<lparr>name := or_else (map_option trim (profile_name pr)) (name u),
                              phone := normalizePhone (or_else (profile_phone pr) (phone u)),
                              is_admin := computeAdminFlag cfg
                                (or_else (map_option trim (profile_name pr)) (name u))
                                (normalizePhone (or_else (profile_phone pr) (phone u))) (is_admin u)\<rparr>
                       else x) (users (db s))
                    else users (db s))))
       \<and> (\<forall>wk wks. merged_is_admin cfg pr u \<and> select_weeks k (db s) = wk # wks \<longrightarrow>
            (\<exists>s' rows. resetWeek no_fault cfg uid k pr s =
                 (Ok \<lparr> status = 200, json = ResetBody (id_week wk) rows \<rparr>, s')
               \<and> rows = select_parts_of_week (id_week wk) (db s')
               \<and> list_all (\<lambda>r. row_claimed_by r = None \<and> row_claimed_name r = None
                                \<and> row_claimed_is_admin r = None) rows
               \<and> length rows = length (filter (\<lambda>p. week_id p = id_week wk) (parts (db s)))
               \<and> parts (db s') = map (\<lambda>p. if week_id p = id_week wk
                     then p\<lparr>claimed_by := None, claimed_name := None, claimed_at := None\<rparr> else p)
                     (parts (db s))
               \<and> weeks (db s') = weeks (db s)
               \<and> trace s' = trace s @ [Committed, Emitted (id_week wk) (WeekReset (id_week wk) rows)]
               \<and> users (db s') =
                   (if truthy (profile_name pr) \<or> truthy (profile_phone pr)
                    then map (\<lambda>x. if id_user x = uid
                       then x\<lparr>name := or_else (map_option trim (profile_name pr)) (name u),
                              phone := normalizePhone (or_else (profile_phone pr) (phone u)),
                              is_admin := computeAdminFlag cfg
                                (or_else (map_option trim (profile_name pr)) (name u))
                                (normalizePhone (or_else (profile_phone pr) (phone u))) (is_admin u)\<rparr>
                       else x) (users (db s))
                    else users (db s))))
       \<and> (is_admin u \<longrightarrow> merged_is_admin cfg pr u)
       \<and> (\<not> is_admin u \<and> \<not> truthy (profile_name pr) \<and> \<not> truthy (profile_phone pr) \<longrightarrow>
            \<not> merged_is_admin cfg pr u)"
proof (intro conjI impI allI)
  assume "\<not> merged_is_admin cfg pr u"
  with assms show "\<exists>s'. resetWeek no_fault cfg uid k pr s = (Ok \<lparr> status = 403, json = Error ''NOT_ADMIN'' \<rparr>, s')
               \<and> parts (db s') = parts (db s) \<and> weeks (db s') = weeks (db s) \<and> trace s' = trace s
               \<and> users (db s') =
                   (if truthy (profile_name pr) \<or> truthy (profile_phone pr)
                    then map (\<lambda>x. if id_user x = uid
                       then x\<lparr>name := or_else (map_option trim (profile_name pr)) (name u),
                              phone := normalizePhone (or_else (profile_phone pr) (phone u)),
                              is_admin := computeAdminFlag cfg
                                (or_else (map_option trim (profile_name pr)) (name u))
                                (normalizePhone (or_else (profile_phone pr) (phone u))) (is_admin u)\<rparr>
                       else x) (users (db s))
                    else users (db s))"
    using wp_result [OF resetWeek_not_admin] by blast
next
  fix wk wks
  assume "merged_is_admin cfg pr u \<and> select_weeks k (db s) = wk # wks"
  with assms obtain r s' where run: "resetWeek no_fault cfg uid k pr s = (Ok r, s')"
    and r: "r = \<lparr> status = 200, json = ResetBody (id_week wk) (select_parts_of_week (id_week wk) (db s')) \<rparr>"
    and p: "parts (db s') = map (\<lambda>p. if week_id p = id_week wk
                     then p\<lparr>claimed_by := None, claimed_name := None, claimed_at := None\<rparr> else p)
                     (parts (db s))"
    and w: "weeks (db s') = weeks (db s)"
    and t: "trace s' = trace s @ [Committed, Emitted (id_week wk)
              (WeekReset (id_week wk) (select_parts_of_week (id_week wk) (db s')))]"
    and x: "users (db s') =
                   (if truthy (profile_name pr) \<or> truthy (profile_phone pr)
                    then map (\<lambda>x. if id_user x = uid
                       then x\<lparr>name := or_else (map_option trim (profile_name pr)) (name u),
                              phone := normalizePhone (or_else (profile_phone pr) (phone u)),
                              is_admin := computeAdminFlag cfg
                                (or_else (map_option trim (profile_name pr)) (name u))
                                (normalizePhone (or_else (profile_phone pr) (phone u))) (is_admin u)\<rparr>
                       else x) (users (db s))
                    else users (db s))"
    using wp_result [OF resetWeek_admin] by blast
  from snapshot_after_reset [OF p] run r p w t x
  show "\<exists>s' rows. resetWeek no_fault cfg uid k pr s =
                 (Ok \<lparr> status = 200, json = ResetBody (id_week wk) rows \<rparr>, s')
               \<and> rows = select_parts_of_week (id_week wk) (db s')
               \<and> list_all (\<lambda>r. row_claimed_by r = None \<and> row_claimed_name r = None
                                \<and> row_claimed_is_admin r = None) rows
               \<and> length rows = length (filter (\<lambda>p. week_id p = id_week wk) (parts (db s)))
               \<and> parts (db s') = map (\<lambda>p. if week_id p = id_week wk
                     then p\<lparr>claimed_by := None, claimed_name := None, claimed_at := None\<rparr> else p)
                     (parts (db s))
               \<and> weeks (db s') = weeks (db s)
               \<and> trace s' = trace s @ [Committed, Emitted (id_week wk) (WeekReset (id_week wk) rows)]
               \<and> users (db s') =
                   (if truthy (profile_name pr) \<or> truthy (profile_phone pr)
                    then map (\<lambda>x. if id_user x = uid
                       then x\<lparr>name := or_else (map_option trim (profile_name pr)) (name u),
                              phone := normalizePhone (or_else (profile_phone pr) (phone u)),
                              is_admin := computeAdminFlag cfg
                                (or_else (map_option trim (profile_name pr)) (name u))
                                (normalizePhone (or_else (profile_phone pr) (phone u))) (is_admin u)\<rparr>
                       else x) (users (db s))
                    else users (db s))"
    by blast
next
  assume "is_admin u"
  then show "merged_is_admin cfg pr u"
    by (simp add: merged_is_admin_def computeAdminFlag_current)
next
  assume "\<not> is_admin u \<and> \<not> truthy (profile_name pr) \<and> \<not> truthy (profile_phone pr)"
  then show "\<not> merged_is_admin cfg pr u"
    by (simp add: merged_is_admin_def)
qed

theorem reset_needs_an_admin_witness:
  "(\<exists>s'. resetWeek no_fault cfg_ex ''u'' ''W1'' no_hint example =
          (Ok \<lparr> status = 403, json = Error ''NOT_ADMIN'' \<rparr>, s')
        \<and> parts (db s') = parts (db example) \<and> trace s' = trace example
        \<and> users (db s') = users (db example))
   \<and> (\<exists>s' rows. resetWeek no_fault cfg_ex ''uu'' ''W1'' no_hint example =
          (Ok \<lparr> status = 200, json = ResetBody ''w'' rows \<rparr>, s')
        \<and> list_all (\<lambda>r. row_claimed_by r = None \<and> row_claimed_name r = None
                                \<and> row_claimed_is_admin r = None) rows
        \<and> length rows = 30
        \<and> parts (db s') = map (free_part ''w'') [1..30])"
proof -
  have u1: "select_users_by_id ''u'' (db example) =
      [\<lparr> id_user = ''u'', firebase_uid = ''k1'', name = Some ''Ann'', phone = Some ''+111'', is_admin = False \<rparr>]"
    by code_simp
  have u2: "select_users_by_id ''uu'' (db example) =
      [\<lparr> id_user = ''uu'', firebase_uid = ''k2'', name = Some ''Admin'', phone = Some ''+222'', is_admin = True \<rparr>]"
    by code_simp
  have wk: "select_weeks ''W1'' (db example) = [\<lparr> id_week = ''w'', week_key = ''W1'' \<rparr>]"
    by code_simp
  have len: "length (filter (\<lambda>p. week_id p = ''w'') (parts (db example))) = 30"
    by code_simp
  have m: "map (\<lambda>p. if week_id p = ''w''
                then p\<lparr>claimed_by := None, claimed_name := None, claimed_at := None\<rparr> else p)
             (parts (db example)) = map (free_part ''w'') [1..30]"
    by code_simp
  have t: "txn example = None" by (rule example_txn)
  have k: "''W1'' \<noteq> []" by simp
  have 1: "\<exists>s'. resetWeek no_fault cfg_ex ''u'' ''W1'' no_hint example =
          (Ok \<lparr> status = 403, json = Error ''NOT_ADMIN'' \<rparr>, s')
        \<and> parts (db s') = parts (db example) \<and> trace s' = trace example
        \<and> users (db s') = users (db example)"
    using reset_needs_an_admin [OF k t u1, of cfg_ex no_hint]
    by (auto simp: no_hint_def)
  have 2: "\<exists>s' rows. resetWeek no_fault cfg_ex ''uu'' ''W1'' no_hint example =
          (Ok \<lparr> status = 200, json = ResetBody ''w'' rows \<rparr>, s')
        \<and> list_all (\<lambda>r. row_claimed_by r = None \<and> row_claimed_name r = None
                                \<and> row_claimed_is_admin r = None) rows
        \<and> length rows = 30
        \<and> parts (db s') = map (free_part ''w'') [1..30]"
    using reset_needs_an_admin [OF k t u2, of cfg_ex no_hint] wk len m
    by auto
  from 1 2 show ?thesis by (rule conjI)
qed

section \<open>Resetting a week that does not exist\<close>

lemma new_week_users: "new_week k (d\<lparr>users := x\<rparr>) = new_week k d"
  by (simp add: new_week_def)

lemma resetWeek_creates:
  assumes "k \<noteq> []" "txn s = None" "select_users_by_id uid (db s) = u # us"
    "select_weeks k (db s) = []" "merged_is_admin cfg pr u"
  shows "wp (resetWeek no_fault cfg uid k pr)
     (\<lambda>r s'. r = \<lparr> status = 200, json = ResetBody (id_week (new_week k (db s)))
                     (select_parts_of_week (id_week (new_week k (db s))) (db s')) \<rparr>
        \<and> parts (db s') = map (\<lambda>p. if week_id p = id_week (new_week k (db s))
              then p\<lparr>claimed_by := None, claimed_name := None, claimed_at := None\<rparr> else p)
              (parts (db s) @ map (free_part (id_week (new_week k (db s)))) [1..30])
        \<and> weeks (db s') = weeks (db s) @ [new_week k (db s)])
     (\<lambda>e s'. False) s"
proof (cases "truthy (profile_name pr) \<or> truthy (profile_phone pr)")
  case True
  with assms(5) have "computeAdminFlag cfg (or_else (map_option trim (profile_name pr)) (name u))
             (normalizePhone (or_else (profile_phone pr) (phone u))) (is_admin u) = True"
    by (simp add: merged_is_admin_def)
  with True assms(1-4) selected_user_id [OF assms(3)] show ?thesis
    by (simp add: resetWeek_def updateUserProfile_def getUserById_def getWeek_def ensureWeek_def
          fetchParts_def wp_simps no_fault_def Let_def select_users_by_id_def select_weeks_def
          update_user_def update_parts_reset_def insert_week_def insert_parts_def new_week_users)
next
  case False
  with assms(5) have "is_admin u = True"
    by (simp add: merged_is_admin_def)
  with False assms(1-4) show ?thesis
    by (simp add: resetWeek_def getUserById_def getWeek_def ensureWeek_def fetchParts_def
          wp_simps no_fault_def select_weeks_def update_parts_reset_def insert_week_def
          insert_parts_def)
qed

lemma reset_of_new_week:
  "map (\<lambda>p. if week_id p = id_week (new_week k d)
              then p\<lparr>claimed_by := None, claimed_name := None, claimed_at := None\<rparr> else p)
       (parts d @ map (free_part (id_week (new_week k d))) [1..30]) =
   parts d @ map (free_part (id_week (new_week k d))) [1..30]"
proof -
  have "(if week_id p = id_week (new_week k d)
          then p\<lparr>claimed_by := None, claimed_name := None, claimed_at := None\<rparr> else p) = p"
    if "p \<in> set (parts d @ map (free_part (id_week (new_week k d))) [1..30])" for p
  proof (cases "p \<in> set (parts d)")
    case True
    then show ?thesis by (simp add: new_week_fresh_parts)
  next
    case False
    with that obtain i where "p = free_part (id_week (new_week k d)) i" by auto
    then show ?thesis by (simp add: free_part_def)
  qed
  then show ?thesis by (simp only: map_idI)
qed

text \<open>
  Claim C9.  The caller is a stored user who is an admin (once the profile hint of the
  request is merged, so in particular every caller whose stored flag is true), the week
  key is not empty and names no week, and no statement fails.  Then a reset does not
  answer with an error: it creates the week with a fresh identifier, together with its
  parts 1 to 30, all free, touches no other week and no other part, and returns the
  snapshot of these thirty free parts.
\<close>

theorem reset_creates_the_week:
  assumes "k \<noteq> []" and "txn s = None" and "select_users_by_id uid (db s) = u # us"
    and "merged_is_admin cfg pr u" and "select_weeks k (db s) = []"
  shows "\<exists>s' weekId. resetWeek no_fault cfg uid k pr s =
             (Ok \<lparr> status = 200, json = ResetBody weekId (map free_row [1..30]) \<rparr>, s')
           \<and> weekId \<notin> set (map id_week (weeks (db s)))
           \<and> weeks (db s') = weeks (db s) @ [\<lparr> id_week = weekId, week_key = k \<rparr>]
           \<and> parts (db s') = parts (db s) @ map (free_part weekId) [1..30]"
proof -
  let ?i = "id_week (new_week k (db s))"
  from assms obtain r s' where run: "resetWeek no_fault cfg uid k pr s = (Ok r, s')"
    and r: "r = \<lparr> status = 200, json = ResetBody ?i (select_parts_of_week ?i (db s')) \<rparr>"
    and p: "parts (db s') = map (\<lambda>p. if week_id p = ?i
              then p\<lparr>claimed_by := None, claimed_name := None, claimed_at := None\<rparr> else p)
              (parts (db s) @ map (free_part ?i) [1..30])"
    and w: "weeks (db s') = weeks (db s) @ [new_week k (db s)]"
    using wp_result [OF resetWeek_creates] by blast
  from p have p': "parts (db s') = parts (db s) @ map (free_part ?i) [1..30]"
    by (simp only: reset_of_new_week)
  have "\<forall>p \<in> set (parts (db s)). week_id p \<noteq> ?i"
    by (simp add: new_week_fresh_parts)
  with p' have snap: "select_parts_of_week ?i (db s') = map free_row [1..30]"
    by (rule snapshot_of_new_week)
  have fresh: "?i \<notin> set (map id_week (weeks (db s)))"
  proof
    assume "?i \<in> set (map id_week (weeks (db s)))"
    then obtain x where x: "x \<in> set (weeks (db s))" and i: "id_week x = ?i" by auto
    from x have "id_week x \<noteq> ?i" by (rule new_week_fresh_weeks)
    with i show False by simp
  qed
  have nw: "new_week k (db s) = \<lparr> id_week = ?i, week_key = k \<rparr>"
    by (simp add: new_week_def)
  from run r snap fresh w nw p' show ?thesis by auto
qed

theorem reset_creates_the_week_witness:
  "\<exists>s'. resetWeek no_fault cfg_ex ''uu'' ''W2'' no_hint example =
             (Ok \<lparr> status = 200, json = ResetBody ''ww'' (map free_row [1..30]) \<rparr>, s')
         \<and> weeks (db s') = [\<lparr> id_week = ''w'', week_key = ''W1'' \<rparr>, \<lparr> id_week = ''ww'', week_key = ''W2'' \<rparr>]"
proof -
  have u2: "select_users_by_id ''uu'' (db example) =
      [\<lparr> id_user = ''uu'', firebase_uid = ''k2'', name = Some ''Admin'', phone = Some ''+222'', is_admin = True \<rparr>]"
    by code_simp
  have wk: "select_weeks ''W2'' (db example) = []"
    by code_simp
  have ws: "weeks (db example) = [\<lparr> id_week = ''w'', week_key = ''W1'' \<rparr>]"
    by code_simp
  have t: "txn example = None" by (rule example_txn)
  have k: "''W2'' \<noteq> []" by simp
  have a: "merged_is_admin cfg_ex no_hint
      \<lparr> id_user = ''uu'', firebase_uid = ''k2'', name = Some ''Admin'', phone = Some ''+222'', is_admin = True \<rparr>"
    by (simp add: merged_is_admin_def no_hint_def)
  from reset_creates_the_week [OF k t u2 a wk]
  obtain s' weekId where run: "resetWeek no_fault cfg_ex ''uu'' ''W2'' no_hint example =
             (Ok \<lparr> status = 200, json = ResetBody weekId (map free_row [1..30]) \<rparr>, s')"
    and w: "weeks (db s') = weeks (db example) @ [\<lparr> id_week = weekId, week_key = ''W2'' \<rparr>]"
    by blast
  have "fst (resetWeek no_fault cfg_ex ''uu'' ''W2'' no_hint example) =
      Ok \<lparr> status = 200, json = ResetBody ''ww'' (map free_row [1..30]) \<rparr>"
    by code_simp
  with run have "weekId = ''ww''" by simp
  with run w ws show ?thesis by simp
qed

section \<open>Resolving a week key\<close>








section \<open>The part number of a request\<close>

text \<open>
  Claim C10, as stated, fails: the number 2.5 passes the validation, but the statement
  that binds it to the column \<^verbatim>\<open>number\<close> raises, and the requests answer
  \<open>CLAIM_FAILED\<close> and \<open>RELEASE_FAILED\<close>, not \<open>PART_NOT_FOUND\<close>.
\<close>

theorem part_number_counterexample:
  "fst (claimPart no_fault cfg_ex 9 ''u'' ''w'' (Finite (5 / 2)) no_hint example) =
     Ok \<lparr> status = 500, json = Error ''CLAIM_FAILED'' \<rparr>
   \<and> fst (releasePart no_fault ''u'' ''w'' (Finite (5 / 2)) example) =
     Ok \<lparr> status = 500, json = Error ''RELEASE_FAILED'' \<rparr>"
  by code_simp

lemma claimPart_bad_request:
  "w = [] \<or> isNaN n \<Longrightarrow> claimPart fails cfg now uid w n pr s = (Ok \<lparr> status = 400, json = Error ''BAD_REQUEST'' \<rparr>, s)"
  by (auto simp: claimPart_def returns_def)

lemma releasePart_bad_request:
  "w = [] \<or> isNaN n \<Longrightarrow> releasePart fails uid w n s = (Ok \<lparr> status = 400, json = Error ''BAD_REQUEST'' \<rparr>, s)"
  by (auto simp: releasePart_def returns_def)

lemma claimPart_validated:
  "w \<noteq> [] \<Longrightarrow> \<not> isNaN n \<Longrightarrow>
   wp (claimPart fails cfg now uid w n pr) (\<lambda>r s'. r \<noteq> \<lparr> status = 400, json = Error ''BAD_REQUEST'' \<rparr>) (\<lambda>e s'. False) s"
  unfolding claimPart_def fn_defs Let_def
  by (simp add: wp_simps split: list.split option.split)

lemma releasePart_validated:
  "w \<noteq> [] \<Longrightarrow> \<not> isNaN n \<Longrightarrow>
   wp (releasePart fails uid w n) (\<lambda>r s'. r \<noteq> \<lparr> status = 400, json = Error ''BAD_REQUEST'' \<rparr>) (\<lambda>e s'. False) s"
  unfolding releasePart_def fn_defs Let_def
  by (simp add: wp_simps split: list.split option.split)

lemma select_part_readable: "select_part w n d = Some rows \<Longrightarrow> \<exists>k. int4 n = Some k"
  by (cases "int4 n") (simp_all add: select_part_def)

lemma select_part_unreadable: "int4 n = None \<Longrightarrow> select_part w n d = None"
  by (simp add: select_part_def)

lemma claimPart_not_found:
  assumes "w \<noteq> []" "txn s = None" "select_users_by_id uid (db s) = u # us"
    "select_part w n (db s) = Some []"
  shows "wp (claimPart no_fault cfg now uid w n pr)
     (\<lambda>r s'. r = \<lparr> status = 404, json = Error ''PART_NOT_FOUND'' \<rparr>
        \<and> parts (db s') = parts (db s) \<and> weeks (db s') = weeks (db s) \<and> trace s' = trace s)
     (\<lambda>e s'. False) s"
proof -
  from assms(4) obtain k where k: "int4 n = Some k"
    using select_part_readable by blast
  from assms(4) k have "filter (\<lambda>p. week_id p = w \<and> number p = k) (parts (db s)) = []"
    by (simp add: select_part_def)
  with assms(1-3) k selected_user_id [OF assms(3)] int4_not_NaN [OF k] show ?thesis
    by (simp add: claimPart_def updateUserProfile_def getUserById_def wp_simps no_fault_def
        Let_def select_users_by_id_def select_part_def update_user_def)
qed

lemma claimPart_unreadable:
  assumes "w \<noteq> []" "\<not> isNaN n" "int4 n = None" "txn s = None"
    "select_users_by_id uid (db s) = u # us"
  shows "wp (claimPart no_fault cfg now uid w n pr)
     (\<lambda>r s'. r = \<lparr> status = 500, json = Error ''CLAIM_FAILED'' \<rparr>
        \<and> parts (db s') = parts (db s) \<and> weeks (db s') = weeks (db s) \<and> trace s' = trace s)
     (\<lambda>e s'. False) s"
  using assms selected_user_id [OF assms(5)]
  by (simp add: claimPart_def updateUserProfile_def getUserById_def wp_simps no_fault_def
        Let_def select_users_by_id_def select_part_def update_user_def)

lemma releasePart_unreadable:
  assumes "w \<noteq> []" "\<not> isNaN n" "int4 n = None" "txn s = None"
    "select_users_by_id uid (db s) = u # us"
  shows "wp (releasePart no_fault uid w n)
     (\<lambda>r s'. r = \<lparr> status = 500, json = Error ''RELEASE_FAILED'' \<rparr> \<and> db s' = db s \<and> trace s' = trace s)
     (\<lambda>e s'. False) s"
  using assms
  by (simp add: releasePart_def getUserById_def wp_simps no_fault_def select_part_def)

text \<open>
  Claim C10, amended.  Under every schedule of failing statements, a claim and a release
  answer \<open>BAD_REQUEST\<close> exactly when the week id is empty or the part number is not a
  number.  For a caller that is a stored user, when no statement fails by itself: a
  number that the column \<^verbatim>\<open>number\<close> holds and that names no part of the week, such as 0
  or 31 in a week with the parts 1 to 30, passes the validation and the request answers
  \<open>PART_NOT_FOUND\<close>; a number that the column cannot read, such as 2.5, an infinity or
  2147483648, passes the validation too, the statement that binds it raises, and the
  request answers \<open>CLAIM_FAILED\<close> or \<open>RELEASE_FAILED\<close>.  In both cases no part and no week
  changes and nothing is emitted.
\<close>

theorem part_number_validation:
  "(w = [] \<or> isNaN n \<longrightarrow>
      (claimPart fails cfg now uid w n pr s = (Ok \<lparr> status = 400, json = Error ''BAD_REQUEST'' \<rparr>, s)
             \<and> releasePart fails uid w n s = (Ok \<lparr> status = 400, json = Error ''BAD_REQUEST'' \<rparr>, s)))
   \<and> (w \<noteq> [] \<and> \<not> isNaN n \<longrightarrow>
      (fst (claimPart fails cfg now uid w n pr s) \<noteq> Ok \<lparr> status = 400, json = Error ''BAD_REQUEST'' \<rparr>
             \<and> fst (releasePart fails uid w n s) \<noteq> Ok \<lparr> status = 400, json = Error ''BAD_REQUEST'' \<rparr>))
   \<and> (\<forall>u us. w \<noteq> [] \<and> txn s = None \<and> select_users_by_id uid (db s) = u # us
          \<and> select_part w n (db s) = Some [] \<longrightarrow>
        \<not> isNaN n
        \<and> ((\<exists>s'. claimPart no_fault cfg now uid w n pr s = (Ok \<lparr> status = 404, json = Error ''PART_NOT_FOUND'' \<rparr>, s')
                 \<and> parts (db s') = parts (db s) \<and> weeks (db s') = weeks (db s) \<and> trace s' = trace s)
             \<and> (\<exists>s'. releasePart no_fault uid w n s = (Ok \<lparr> status = 404, json = Error ''PART_NOT_FOUND'' \<rparr>, s')
                 \<and> db s' = db s \<and> trace s' = trace s)))
   \<and> (\<forall>u us. w \<noteq> [] \<and> \<not> isNaN n \<and> int4 n = None \<and> txn s = None
          \<and> select_users_by_id uid (db s) = u # us \<longrightarrow>
        ((\<exists>s'. claimPart no_fault cfg now uid w n pr s = (Ok \<lparr> status = 500, json = Error ''CLAIM_FAILED'' \<rparr>, s')
                 \<and> parts (db s') = parts (db s) \<and> weeks (db s') = weeks (db s) \<and> trace s' = trace s)
             \<and> (\<exists>s'. releasePart no_fault uid w n s = (Ok \<lparr> status = 500, json = Error ''RELEASE_FAILED'' \<rparr>, s')
                 \<and> db s' = db s \<and> trace s' = trace s)))
   \<and> int4 (Finite 0) = Some 0 \<and> int4 (Finite 31) = Some 31
   \<and> int4 (Finite (5 / 2)) = None \<and> int4 PosInfinity = None \<and> int4 NegInfinity = None
   \<and> int4 (Finite 2147483648) = None"
proof (intro conjI impI allI)
  assume "w = [] \<or> isNaN n"
  then show "claimPart fails cfg now uid w n pr s = (Ok \<lparr> status = 400, json = Error ''BAD_REQUEST'' \<rparr>, s)"
    by (rule claimPart_bad_request)
next
  assume "w = [] \<or> isNaN n"
  then show "releasePart fails uid w n s = (Ok \<lparr> status = 400, json = Error ''BAD_REQUEST'' \<rparr>, s)"
    by (rule releasePart_bad_request)
next
  assume "w \<noteq> [] \<and> \<not> isNaN n"
  then have "\<exists>r s'. claimPart fails cfg now uid w n pr s = (Ok r, s') \<and> r \<noteq> \<lparr> status = 400, json = Error ''BAD_REQUEST'' \<rparr>"
    by (intro wp_result claimPart_validated) simp_all
  then show "fst (claimPart fails cfg now uid w n pr s) \<noteq> Ok \<lparr> status = 400, json = Error ''BAD_REQUEST'' \<rparr>"
    by auto
next
  assume "w \<noteq> [] \<and> \<not> isNaN n"
  then have "\<exists>r s'. releasePart fails uid w n s = (Ok r, s') \<and> r \<noteq> \<lparr> status = 400, json = Error ''BAD_REQUEST'' \<rparr>"
    by (intro wp_result releasePart_validated) simp_all
  then show "fst (releasePart fails uid w n s) \<noteq> Ok \<lparr> status = 400, json = Error ''BAD_REQUEST'' \<rparr>"
    by auto
next
  fix u us
  assume "w \<noteq> [] \<and> txn s = None \<and> select_users_by_id uid (db s) = u # us
          \<and> select_part w n (db s) = Some []"
  then obtain k where "int4 n = Some k"
    using select_part_readable by blast
  then show "\<not> isNaN n" by (rule int4_not_NaN)
next
  fix u us
  assume "w \<noteq> [] \<and> txn s = None \<and> select_users_by_id uid (db s) = u # us
          \<and> select_part w n (db s) = Some []"
  then show "\<exists>s'. claimPart no_fault cfg now uid w n pr s = (Ok \<lparr> status = 404, json = Error ''PART_NOT_FOUND'' \<rparr>, s')
                 \<and> parts (db s') = parts (db s) \<and> weeks (db s') = weeks (db s) \<and> trace s' = trace s"
    using wp_result [OF claimPart_not_found] by blast
next
  fix u us
  assume a: "w \<noteq> [] \<and> txn s = None \<and> select_users_by_id uid (db s) = u # us
          \<and> select_part w n (db s) = Some []"
  then obtain k where "int4 n = Some k"
    using select_part_readable by blast
  with a show "\<exists>s'. releasePart no_fault uid w n s = (Ok \<lparr> status = 404, json = Error ''PART_NOT_FOUND'' \<rparr>, s')
                 \<and> db s' = db s \<and> trace s' = trace s"
    using wp_result [OF releasePart_not_found] by blast
next
  fix u us
  assume "w \<noteq> [] \<and> \<not> isNaN n \<and> int4 n = None \<and> txn s = None
          \<and> select_users_by_id uid (db s) = u # us"
  then show "\<exists>s'. claimPart no_fault cfg now uid w n pr s = (Ok \<lparr> status = 500, json = Error ''CLAIM_FAILED'' \<rparr>, s')
                 \<and> parts (db s') = parts (db s) \<and> weeks (db s') = weeks (db s) \<and> trace s' = trace s"
    using wp_result [OF claimPart_unreadable] by blast
next
  fix u us
  assume "w \<noteq> [] \<and> \<not> isNaN n \<and> int4 n = None \<and> txn s = None
          \<and> select_users_by_id uid (db s) = u # us"
  then show "\<exists>s'. releasePart no_fault uid w n s = (Ok \<lparr> status = 500, json = Error ''RELEASE_FAILED'' \<rparr>, s')
                 \<and> db s' = db s \<and> trace s' = trace s"
    using wp_result [OF releasePart_unreadable] by blast
next
  show "int4 (Finite (5 / 2)) = None" by code_simp
qed simp_all

theorem part_number_validation_witness:
  "claimPart no_fault cfg_ex 9 ''u'' ''w'' NaN no_hint example = (Ok \<lparr> status = 400, json = Error ''BAD_REQUEST'' \<rparr>, example)
   \<and> fst (releasePart no_fault ''u'' ''w'' (Finite 31) example) \<noteq> Ok \<lparr> status = 400, json = Error ''BAD_REQUEST'' \<rparr>
   \<and> (\<exists>s'. claimPart no_fault cfg_ex 9 ''u'' ''w'' (Finite 0) no_hint example = (Ok \<lparr> status = 404, json = Error ''PART_NOT_FOUND'' \<rparr>, s'))
   \<and> (\<exists>s'. releasePart no_fault ''u'' ''w'' (Finite 31) example = (Ok \<lparr> status = 404, json = Error ''PART_NOT_FOUND'' \<rparr>, s'))
   \<and> (\<exists>s'. claimPart no_fault cfg_ex 9 ''u'' ''w'' PosInfinity no_hint example = (Ok \<lparr> status = 500, json = Error ''CLAIM_FAILED'' \<rparr>, s'))
   \<and> (\<exists>s'. releasePart no_fault ''u'' ''w'' (Finite (5 / 2)) example = (Ok \<lparr> status = 500, json = Error ''RELEASE_FAILED'' \<rparr>, s'))"
proof -
  have u1: "select_users_by_id ''u'' (db example) =
      [\<lparr> id_user = ''u'', firebase_uid = ''k1'', name = Some ''Ann'', phone = Some ''+111'', is_admin = False \<rparr>]"
    by code_simp
  have p0: "select_part ''w'' (Finite 0) (db example) = Some []"
    by code_simp
  have p31: "select_part ''w'' (Finite 31) (db example) = Some []"
    by code_simp
  have t: "txn example = None" by (rule example_txn)
  have h: "int4 (Finite (5 / 2)) = None" by code_simp
  have 1: "claimPart no_fault cfg_ex 9 ''u'' ''w'' NaN no_hint example = (Ok \<lparr> status = 400, json = Error ''BAD_REQUEST'' \<rparr>, example)"
    using part_number_validation [where w = "''w''" and n = NaN and s = example and fails = no_fault
        and cfg = cfg_ex and now = 9 and uid = "''u''" and pr = no_hint]
    by (simp add: isNaN_def)
  have 2: "fst (releasePart no_fault ''u'' ''w'' (Finite 31) example) \<noteq> Ok \<lparr> status = 400, json = Error ''BAD_REQUEST'' \<rparr>"
    using part_number_validation [where w = "''w''" and n = "Finite 31" and s = example and fails = no_fault
        and cfg = cfg_ex and now = 9 and uid = "''u''" and pr = no_hint]
    by (simp add: isNaN_def)
  have 3: "\<exists>s'. claimPart no_fault cfg_ex 9 ''u'' ''w'' (Finite 0) no_hint example = (Ok \<lparr> status = 404, json = Error ''PART_NOT_FOUND'' \<rparr>, s')"
    using part_number_validation [where w = "''w''" and n = "Finite 0" and s = example and fails = no_fault
        and cfg = cfg_ex and now = 9 and uid = "''u''" and pr = no_hint] t u1 p0
    by blast
  have 4: "\<exists>s'. releasePart no_fault ''u'' ''w'' (Finite 31) example = (Ok \<lparr> status = 404, json = Error ''PART_NOT_FOUND'' \<rparr>, s')"
    using part_number_validation [where w = "''w''" and n = "Finite 31" and s = example and fails = no_fault
        and cfg = cfg_ex and now = 9 and uid = "''u''" and pr = no_hint] t u1 p31
    by blast
  have 5: "\<exists>s'. claimPart no_fault cfg_ex 9 ''u'' ''w'' PosInfinity no_hint example = (Ok \<lparr> status = 500, json = Error ''CLAIM_FAILED'' \<rparr>, s')"
    using part_number_validation [where w = "''w''" and n = PosInfinity and s = example and fails = no_fault
        and cfg = cfg_ex and now = 9 and uid = "''u''" and pr = no_hint] t u1
    by (auto simp: isNaN_def)
  have 6: "\<exists>s'. releasePart no_fault ''u'' ''w'' (Finite (5 / 2)) example = (Ok \<lparr> status = 500, json = Error ''RELEASE_FAILED'' \<rparr>, s')"
    using part_number_validation [where w = "''w''" and n = "Finite (5 / 2)" and s = example and fails = no_fault
        and cfg = cfg_ex and now = 9 and uid = "''u''" and pr = no_hint] t u1 h
    by (auto simp: isNaN_def)
  from 1 2 3 4 5 6 show ?thesis by (intro conjI)
qed


end
